theory Spec2Isabelle
  imports Main "HOL-Library.AList" "HOL-Library.Sublist"
begin

section \<open>Data model\<close>

text \<open>
  The dashboard SDK returns JSON decoded into Python values. A Python dict with string
  keys is an association list in insertion order (\<open>d[k] = v\<close> is \<open>AList.update\<close>,
  \<open>d.pop(k)\<close> removes the entry, \<open>d[k]\<close> on a missing key raises KeyError).
  Floating-point numbers are not modelled. Values are compared structurally. Python's
  \<open>==\<close> agrees with that on two strings and on two integers, which is what the program
  compares: identifiers, names and slot numbers. (Beyond that, \<open>==\<close> also equates \<open>True\<close>
  with \<open>1\<close>, and dicts that differ only in the order of their keys.)
\<close>

datatype pyval =
    PStr string
  | PInt int
  | PBool bool
  | PNone
  | PList "pyval list"
  | PDict "(string \<times> pyval) list"

type_synonym pydict = "(string \<times> pyval) list"

datatype py_error =
    KeyError pyval
  | AttributeError
  | TypeError
  | ValueError string
  | IndexError
  | EOFError
  | APIError string
  | MarkupError

text \<open>The four SDK operations the program uses, with the arguments it passes.\<close>

datatype api_call =
    GetOrganizationNetworks string
  | GetOrganizationDevices string pyval pyval
  | GetNetworkWirelessSsids pyval
  | UpdateNetworkWirelessSsid pyval pyval pydict

text \<open>
  An f-string is the list of its literal parts and interpolated values; \<open>Exc e\<close> is
  the text of an exception, as \<open>print(e)\<close> shows it. The transcript of
  a run lists, in order, what was printed, what was read from the terminal and every
  SDK call with the outcome it had (\<open>Inl\<close> carries the text of the exception raised).
\<close>

datatype frag = Lit string | Val pyval | Exc py_error

datatype event =
    Print "frag list"
  | Panel "frag list" string
  | Input string "string option"
  | Call api_call "string + pydict list"

text \<open>
  The dashboard is an external service: a state machine over a state the program never
  sees. The world holds that state, the lines still to be read on standard input and
  the transcript so far.
\<close>

type_synonym 'd dashboard = "api_call \<Rightarrow> 'd \<Rightarrow> (string + pydict list) \<times> 'd"

record 'd world =
  cloud :: 'd
  stdin :: "string list"
  out :: "event list"

type_synonym ('d, 'a) prog = "'d world \<Rightarrow> (py_error + 'a) \<times> 'd world"

definition ret :: "'a \<Rightarrow> ('d, 'a) prog" where
  "ret x w = (Inr x, w)"

definition raise :: "py_error \<Rightarrow> ('d, 'a) prog" where
  "raise e w = (Inl e, w)"

definition lift :: "py_error + 'a \<Rightarrow> ('d, 'a) prog" where
  "lift r w = (r, w)"

definition bnd :: "('d, 'a) prog \<Rightarrow> ('a \<Rightarrow> ('d, 'b) prog) \<Rightarrow> ('d, 'b) prog" where
  "bnd m f w = (case m w of (Inl e, w') \<Rightarrow> (Inl e, w') | (Inr x, w') \<Rightarrow> f x w')"

definition emit :: "event \<Rightarrow> ('d, unit) prog" where
  "emit e w = (Inr (), w\<lparr>out := out w @ [e]\<rparr>)"

definition call :: "'d dashboard \<Rightarrow> api_call \<Rightarrow> ('d, pydict list) prog" where
  "call dashboard c w =
     (case dashboard c (cloud w) of
        (r, d') \<Rightarrow>
          ((case r of Inl msg \<Rightarrow> Inl (APIError msg) | Inr v \<Rightarrow> Inr v),
           w\<lparr>cloud := d', out := out w @ [Call c r]\<rparr>))"

definition input :: "string \<Rightarrow> ('d, string) prog" where
  "input prompt w =
     (case stdin w of
        [] \<Rightarrow> (Inl EOFError, w\<lparr>out := out w @ [Input prompt None]\<rparr>)
      | l # ls \<Rightarrow> (Inr l, w\<lparr>stdin := ls, out := out w @ [Input prompt (Some l)]\<rparr>))"

definition getitem :: "pydict \<Rightarrow> string \<Rightarrow> py_error + pyval" where
  "getitem d k = (case map_of d k of None \<Rightarrow> Inl (KeyError (PStr k)) | Some v \<Rightarrow> Inr v)"

text \<open>
  \<open>console.print\<close>, of the rich library, reads the text it is given as console markup.
  When the tags of the text do not balance (a closing tag with nothing open, as in
  \<open>[/x]\<close>) it raises MarkupError and prints nothing. Which texts it accepts is the
  parameter \<open>renders\<close> of the model; \<open>shape\<close> says what is printed: a line or a panel. A
  text without an opening bracket is printed as it is, so a panel with a fixed text is a
  plain event. The builtin \<open>print\<close> reads no markup.
\<close>

type_synonym markup = "frag list \<Rightarrow> bool"

definition console_print :: "markup \<Rightarrow> (frag list \<Rightarrow> event) \<Rightarrow> frag list \<Rightarrow> ('d, unit) prog" where
  "console_print renders shape txt w =
     (if renders txt then emit (shape txt) w else raise MarkupError w)"

text \<open>A \<open>for\<close> loop with no early exit: the body updates the loop's variables.\<close>

fun for_loop :: "('a \<Rightarrow> 's \<Rightarrow> ('d, 's) prog) \<Rightarrow> 'a list \<Rightarrow> 's \<Rightarrow> ('d, 's) prog" where
  "for_loop body [] s w = (Inr s, w)"
| "for_loop body (x # xs) s w =
     (case body x s w of
        (Inl e, w') \<Rightarrow> (Inl e, w')
      | (Inr s', w') \<Rightarrow> for_loop body xs s' w')"

text \<open>Lists and dicts cannot be dict keys or set members: hashing them raises TypeError.\<close>

fun hashable :: "pyval \<Rightarrow> bool" where
  "hashable (PList _) = False"
| "hashable (PDict _) = False"
| "hashable _ = True"

section \<open>Network resolution\<close>

text \<open>\<open>get_network_id\<close>: the loop over the listing returns at the first match.\<close>

fun get_network_id_loop :: "pydict list \<Rightarrow> string \<Rightarrow> py_error + pyval" where
  "get_network_id_loop [] net_name = Inr PNone"
| "get_network_id_loop (network # networks) net_name =
     (case getitem network ''name'' of
        Inl e \<Rightarrow> Inl e
      | Inr n \<Rightarrow>
          if n = PStr net_name then getitem network ''id''
          else get_network_id_loop networks net_name)"

definition get_network_id :: "'d dashboard \<Rightarrow> string \<Rightarrow> string \<Rightarrow> ('d, pyval) prog" where
  "get_network_id dashboard org_id net_name =
     bnd (call dashboard (GetOrganizationNetworks org_id))
       (\<lambda>networks. lift (get_network_id_loop networks net_name))"


definition getkey :: "(pyval \<times> 'a) list \<Rightarrow> pyval \<Rightarrow> py_error + 'a" where
  "getkey d k = (case map_of d k of None \<Rightarrow> Inl (KeyError k) | Some v \<Rightarrow> Inr v)"

text \<open>\<open>"wireless" in v\<close>, for each type of value \<open>v\<close>.\<close>

fun py_in :: "string \<Rightarrow> pyval \<Rightarrow> py_error + bool" where
  "py_in s (PStr t) = Inr (sublist s t)"
| "py_in s (PList vs) = Inr (PStr s \<in> set vs)"
| "py_in s (PDict d) = Inr (s \<in> fst ` set d)"
| "py_in s _ = Inl TypeError"

fun get_wireless_networks_loop :: "pydict list \<Rightarrow> pydict list \<Rightarrow> py_error + pydict list" where
  "get_wireless_networks_loop [] wireless_networks = Inr wireless_networks"
| "get_wireless_networks_loop (network # networks) wireless_networks =
     (case getitem network ''productTypes'' of
        Inl e \<Rightarrow> Inl e
      | Inr pt \<Rightarrow>
          (case py_in ''wireless'' pt of
             Inl e \<Rightarrow> Inl e
           | Inr b \<Rightarrow>
               get_wireless_networks_loop networks
                 (if b then wireless_networks @ [network] else wireless_networks)))"

definition get_wireless_networks :: "'d dashboard \<Rightarrow> string \<Rightarrow> ('d, pydict list) prog" where
  "get_wireless_networks dashboard org_id =
     bnd (call dashboard (GetOrganizationNetworks org_id))
       (\<lambda>networks. lift (get_wireless_networks_loop networks []))"

section \<open>SSID catalog\<close>

text \<open>
  The inner loop of \<open>get_all_ssids\<close>: \<open>startswith\<close> exists on strings only, so a name of
  another type raises AttributeError.
\<close>

fun get_all_ssids_inner :: "pydict list \<Rightarrow> pydict list \<Rightarrow> py_error + pydict list" where
  "get_all_ssids_inner [] all_ssids = Inr all_ssids"
| "get_all_ssids_inner (ssid # ssids) all_ssids =
     (case getitem ssid ''name'' of
        Inl e \<Rightarrow> Inl e
      | Inr (PStr n) \<Rightarrow>
          get_all_ssids_inner ssids
            (if \<not> prefix ''Unconfigured'' n then all_ssids @ [ssid] else all_ssids)
      | Inr _ \<Rightarrow> Inl AttributeError)"

definition get_all_ssids_body ::
  "markup \<Rightarrow> 'd dashboard \<Rightarrow> pydict \<Rightarrow> pydict list \<Rightarrow> ('d, pydict list) prog" where
  "get_all_ssids_body renders dashboard net all_ssids =
     bnd (lift (getitem net ''name'')) (\<lambda>nm.
     bnd (console_print renders Print
            [Lit ''Retrieving SSIDs for the '', Val nm, Lit '' network'']) (\<lambda>_.
     bnd (lift (getitem net ''id'')) (\<lambda>i.
     bnd (call dashboard (GetNetworkWirelessSsids i)) (\<lambda>ssids.
     lift (get_all_ssids_inner ssids all_ssids)))))"

definition get_all_ssids ::
  "markup \<Rightarrow> 'd dashboard \<Rightarrow> pydict list \<Rightarrow> ('d, pydict list) prog" where
  "get_all_ssids renders dashboard wireless_networks =
     for_loop (get_all_ssids_body renders dashboard) wireless_networks []"

fun make_ssid_dict_loop ::
  "pydict list \<Rightarrow> (pyval \<times> pydict) list \<Rightarrow> py_error + (pyval \<times> pydict) list" where
  "make_ssid_dict_loop [] ssid_dict = Inr ssid_dict"
| "make_ssid_dict_loop (ssid # ssids) ssid_dict =
     (case getitem ssid ''name'' of
        Inl e \<Rightarrow> Inl e
      | Inr name \<Rightarrow>
          if hashable name then make_ssid_dict_loop ssids (AList.update name ssid ssid_dict)
          else Inl TypeError)"

definition make_ssid_dict :: "pydict list \<Rightarrow> py_error + (pyval \<times> pydict) list" where
  "make_ssid_dict ssids = make_ssid_dict_loop ssids []"

section \<open>Tag matching\<close>

text \<open>
  A Python set is a duplicate-free list, here in insertion order. The order in which
  Python iterates a set is not fixed by the language; no theorem below depends on it.
\<close>

definition set_add :: "pyval \<Rightarrow> pyval list \<Rightarrow> py_error + pyval list" where
  "set_add x s = (if \<not> hashable x then Inl TypeError else if x \<in> set s then Inr s else Inr (s @ [x]))"

fun get_ap_ssids_inner :: "pyval \<Rightarrow> pydict list \<Rightarrow> pyval list \<Rightarrow> py_error + pyval list" where
  "get_ap_ssids_inner tag [] network_ssids = Inr network_ssids"
| "get_ap_ssids_inner tag (ap # aps) network_ssids =
     (case set_add tag network_ssids of
        Inl e \<Rightarrow> Inl e
      | Inr s \<Rightarrow> get_ap_ssids_inner tag aps s)"

definition get_ap_ssids_body ::
  "markup \<Rightarrow> 'd dashboard \<Rightarrow> string \<Rightarrow> pyval \<Rightarrow> pydict \<Rightarrow> pyval list \<Rightarrow>
   ('d, pyval list) prog" where
  "get_ap_ssids_body renders dashboard org_id net_id ssid network_ssids =
     bnd (lift (getitem ssid ''name'')) (\<lambda>tag.
     bnd (console_print renders Print [Lit ''Retrieving all APs with the tag '', Val tag]) (\<lambda>_.
     bnd (call dashboard (GetOrganizationDevices org_id net_id tag)) (\<lambda>aps.
     lift (get_ap_ssids_inner tag aps network_ssids))))"

definition get_ap_ssids ::
  "markup \<Rightarrow> 'd dashboard \<Rightarrow> string \<Rightarrow> pyval \<Rightarrow> pydict list \<Rightarrow> ('d, pyval list) prog" where
  "get_ap_ssids renders dashboard org_id net_id ssids =
     for_loop (get_ap_ssids_body renders dashboard org_id net_id) ssids []"

section \<open>Configuration and PSK update\<close>

definition try_except :: "('d, 'a) prog \<Rightarrow> (py_error \<Rightarrow> ('d, 'a) prog) \<Rightarrow> ('d, 'a) prog" where
  "try_except m handler w = (case m w of (Inl e, w') \<Rightarrow> handler e w' | (Inr x, w') \<Rightarrow> (Inr x, w'))"

text \<open>
  \<open>configure_net_ssids\<close> changes the dict it is given: the result carries the dict as the
  call leaves it, next to the boolean the function returns.
\<close>

definition configure_net_ssids ::
  "'d dashboard \<Rightarrow> pyval \<Rightarrow> pydict \<Rightarrow> ('d, bool \<times> pydict) prog" where
  "configure_net_ssids dashboard net_id ssid_config =
     (let ssid_config1 = AList.update ''number'' (PInt 3) ssid_config in
      bnd (lift (getitem ssid_config1 ''number'')) (\<lambda>ssid_num.
      let ssid_config2 = AList.delete ''number'' ssid_config1 in
      try_except
        (bnd (call dashboard (UpdateNetworkWirelessSsid net_id ssid_num ssid_config2))
           (\<lambda>response. ret (True, ssid_config2)))
        (\<lambda>e.
           bnd (lift (getitem ssid_config2 ''name'')) (\<lambda>n.
           bnd (emit (Print [Lit ''There was an issue configuring the SSID '', Val n,
                             Lit '' for the following reason:''])) (\<lambda>_.
           bnd (emit (Print [Exc e])) (\<lambda>_.
           ret (False, ssid_config2)))))))"

fun get_psk_net_ssids_loop :: "pyval \<Rightarrow> pydict list \<Rightarrow> pydict list \<Rightarrow> py_error + pydict list" where
  "get_psk_net_ssids_loop net_id [] psk_ssids = Inr psk_ssids"
| "get_psk_net_ssids_loop net_id (ssid # ssids) psk_ssids =
     (case getitem ssid ''authMode'' of
        Inl e \<Rightarrow> Inl e
      | Inr a \<Rightarrow>
          if a = PStr ''psk'' then
            (case getitem ssid ''name'' of
               Inl e \<Rightarrow> Inl e
             | Inr n \<Rightarrow>
                 (case getitem ssid ''number'' of
                    Inl e \<Rightarrow> Inl e
                  | Inr k \<Rightarrow>
                      get_psk_net_ssids_loop net_id ssids
                        (psk_ssids @ [[(''name'', n), (''number'', k), (''net_id'', net_id)]])))
          else get_psk_net_ssids_loop net_id ssids psk_ssids)"

definition get_psk_net_ssids :: "'d dashboard \<Rightarrow> pyval \<Rightarrow> ('d, pydict list) prog" where
  "get_psk_net_ssids dashboard net_id =
     bnd (call dashboard (GetNetworkWirelessSsids net_id))
       (\<lambda>ssids. lift (get_psk_net_ssids_loop net_id ssids []))"

definition change_ssid_psk :: "'d dashboard \<Rightarrow> pyval \<Rightarrow> pyval \<Rightarrow> string \<Rightarrow> ('d, bool) prog" where
  "change_ssid_psk dashboard net_id ssid_num psk =
     try_except
       (bnd (call dashboard
               (UpdateNetworkWirelessSsid net_id ssid_num
                  [(''authMode'', PStr ''psk''), (''psk'', PStr psk)]))
          (\<lambda>response. ret True))
       (\<lambda>e.
          bnd (emit (Print [Lit ''There was an issue assigning a new password to the SSID for the following reason:''])) (\<lambda>_.
          bnd (emit (Print [Exc e])) (\<lambda>_.
          ret False)))"

section \<open>The run\<close>

text \<open>
  \<open>main\<close> is modelled from the point where the configuration has been read:
  \<open>NET_NAMES\<close> is the list of configured names and \<open>ORG_ID\<close> the organization. The
  progress bars change nothing but the display and are left out; every other statement
  of \<open>main\<close> is a step below. The functions that print through a rich console take the
  parameter \<open>renders\<close>, next to the arguments they have in the source.
\<close>

text \<open>Resolution (the loop of \<open>main\<close> that fills \<open>net_id_to_name\<close>); \<open>None\<close> is its \<open>return\<close>.\<close>

fun main_resolve ::
  "markup \<Rightarrow> 'd dashboard \<Rightarrow> string \<Rightarrow> string list \<Rightarrow> (pyval \<times> string) list \<Rightarrow>
   ('d, (pyval \<times> string) list option) prog" where
  "main_resolve renders dashboard ORG_ID [] net_id_to_name w = (Inr (Some net_id_to_name), w)"
| "main_resolve renders dashboard ORG_ID (network # rest) net_id_to_name w =
     (case bnd (console_print renders (\<lambda>txt. Panel txt ''Step 2'')
                  [Lit ''Get network ID for network '', Val (PStr network)])
             (\<lambda>_. get_network_id dashboard ORG_ID network) w of
        (Inl e, w') \<Rightarrow> (Inl e, w')
      | (Inr net_id, w') \<Rightarrow>
          if net_id = PNone then
            bnd (emit (Print [Lit ''There was an error trying to find the network with name '',
                              Val (PStr network)])) (\<lambda>_.
            bnd (emit (Print [Lit ''Aborting program...''])) (\<lambda>_.
            ret None)) w'
          else if hashable net_id then
            main_resolve renders dashboard ORG_ID rest
              (AList.update net_id network net_id_to_name) w'
          else (Inl TypeError, w'))"

text \<open>Tag matching for every target network, in the order of the keys of \<open>net_id_to_name\<close>.\<close>

definition main_match ::
  "markup \<Rightarrow> 'd dashboard \<Rightarrow> string \<Rightarrow> (pyval \<times> string) list \<Rightarrow> pydict list \<Rightarrow>
   ('d, (pyval \<times> pyval list) list) prog" where
  "main_match renders dashboard ORG_ID net_id_to_name all_ssids =
     for_loop
       (\<lambda>net_id network_to_ssids.
          bnd (get_ap_ssids renders dashboard ORG_ID net_id all_ssids) (\<lambda>s.
          ret (AList.update net_id s network_to_ssids)))
       (map fst net_id_to_name) []"

text \<open>
  Configuration. \<open>ssid = ssid_dict[ssid_name]\<close> is the catalog's own object, so what
  \<open>configure_net_ssids\<close> does to it is seen by every later lookup of that name: the loop
  carries the catalog and stores the changed record back under its key.
\<close>

definition main_configure_ssid ::
  "'d dashboard \<Rightarrow> (pyval \<times> string) list \<Rightarrow> pyval \<Rightarrow> pyval \<Rightarrow> (pyval \<times> pydict) list \<Rightarrow>
   ('d, (pyval \<times> pydict) list) prog" where
  "main_configure_ssid dashboard net_id_to_name net_id ssid_name ssid_dict =
     bnd (lift (getkey ssid_dict ssid_name)) (\<lambda>ssid.
     bnd (configure_net_ssids dashboard net_id ssid) (\<lambda>(configured, ssid').
     bnd (lift (getkey net_id_to_name net_id)) (\<lambda>net_name.
     bnd (emit (if configured
                then Print [Val (PStr net_name), Lit '' configured with ssid '', Val ssid_name]
                else Print [Lit ''There was an issue configuring ssid '', Val ssid_name,
                            Lit '' on '', Val (PStr net_name)])) (\<lambda>_.
     ret (AList.update ssid_name ssid' ssid_dict)))))"

definition main_configure_net ::
  "markup \<Rightarrow> 'd dashboard \<Rightarrow> (pyval \<times> string) list \<Rightarrow> (pyval \<times> pyval list) list \<Rightarrow>
   pyval \<Rightarrow> (pyval \<times> pydict) list \<Rightarrow> ('d, (pyval \<times> pydict) list) prog" where
  "main_configure_net renders dashboard net_id_to_name network_to_ssids net_id ssid_dict =
     bnd (lift (getkey net_id_to_name net_id)) (\<lambda>net_name.
     bnd (console_print renders Print
            [Lit ''Configuring the SSIDs of the '', Val (PStr net_name), Lit '' network'']) (\<lambda>_.
     bnd (lift (getkey network_to_ssids net_id)) (\<lambda>ssid_names.
     for_loop (main_configure_ssid dashboard net_id_to_name net_id) ssid_names ssid_dict)))"

definition main_configure ::
  "markup \<Rightarrow> 'd dashboard \<Rightarrow> (pyval \<times> string) list \<Rightarrow> (pyval \<times> pyval list) list \<Rightarrow>
   (pyval \<times> pydict) list \<Rightarrow> ('d, (pyval \<times> pydict) list) prog" where
  "main_configure renders dashboard net_id_to_name network_to_ssids ssid_dict =
     for_loop (main_configure_net renders dashboard net_id_to_name network_to_ssids)
       (map fst network_to_ssids) ssid_dict"

text \<open>The PSK listing: \<open>psk_ssids += get_psk_net_ssids(dashboard, net_id)\<close> per target network.\<close>

definition main_psk_list ::
  "'d dashboard \<Rightarrow> (pyval \<times> pyval list) list \<Rightarrow> ('d, pydict list) prog" where
  "main_psk_list dashboard network_to_ssids =
     for_loop
       (\<lambda>net_id psk_ssids.
          bnd (get_psk_net_ssids dashboard net_id) (\<lambda>l. ret (psk_ssids @ l)))
       (map fst network_to_ssids) []"

text \<open>\<open>xs.index(x)\<close>: the position of the first element equal to \<open>x\<close>.\<close>

fun py_index :: "'a list \<Rightarrow> 'a \<Rightarrow> py_error + nat" where
  "py_index [] x = Inl (ValueError ''not in list'')"
| "py_index (y # ys) x =
     (if y = x then Inr 0
      else (case py_index ys x of Inl e \<Rightarrow> Inl e | Inr i \<Rightarrow> Inr (Suc i)))"

definition main_psk_print_line ::
  "(pyval \<times> string) list \<Rightarrow> pydict list \<Rightarrow> pydict \<Rightarrow> unit \<Rightarrow> ('d, unit) prog" where
  "main_psk_print_line net_id_to_name psk_ssids ssid u =
     bnd (lift (py_index psk_ssids ssid)) (\<lambda>index.
     bnd (lift (getitem ssid ''net_id'')) (\<lambda>nid.
     bnd (lift (getkey net_id_to_name nid)) (\<lambda>net_name.
     bnd (lift (getitem ssid ''name'')) (\<lambda>nm.
     emit (Print [Val (PInt (int index)), Lit '' - '', Val nm, Lit '' of '',
                  Val (PStr net_name)])))))"

definition main_psk_print :: "(pyval \<times> string) list \<Rightarrow> pydict list \<Rightarrow> ('d, unit) prog" where
  "main_psk_print net_id_to_name psk_ssids =
     for_loop (main_psk_print_line net_id_to_name psk_ssids) psk_ssids ()"

text \<open>
  The interactive loop. \<open>str.lower\<close> is modelled on ASCII letters, which is all the
  comparison with \<open>"n"\<close> can see. \<open>int(s)\<close> is the parameter \<open>py_int\<close> (\<open>None\<close> when
  Python raises ValueError). List indexing counts a negative index from the end.
  Standard input is a finite list of lines; reading past its end raises EOFError.
\<close>

definition py_lower :: "string \<Rightarrow> string" where
  "py_lower s =
     map (\<lambda>c. case map_of (zip ''ABCDEFGHIJKLMNOPQRSTUVWXYZ'' ''abcdefghijklmnopqrstuvwxyz'') c of
                None \<Rightarrow> c
              | Some d \<Rightarrow> d) s"

definition py_nth :: "'a list \<Rightarrow> int \<Rightarrow> py_error + 'a" where
  "py_nth xs i =
     (if 0 \<le> i \<and> i < int (length xs) then Inr (xs ! nat i)
      else if - int (length xs) \<le> i \<and> i < 0 then Inr (xs ! nat (int (length xs) + i))
      else Inl IndexError)"

definition prompt_index :: string where
  "prompt_index = ''Enter the number corresponding to the SSID whose password you'd like to change or enter N for none: ''"

definition prompt_psk :: string where
  "prompt_psk = ''Enter the new password you'd like to assign to the SSID: ''"

definition main_psk_body ::
  "'d dashboard \<Rightarrow> (string \<Rightarrow> int option) \<Rightarrow> (pyval \<times> string) list \<Rightarrow> pydict list \<Rightarrow> string \<Rightarrow>
   ('d, string) prog" where
  "main_psk_body dashboard py_int net_id_to_name psk_ssids ssid_index =
     bnd (lift (case py_int ssid_index of None \<Rightarrow> Inl (ValueError ssid_index) | Some i \<Rightarrow> Inr i)) (\<lambda>i.
     bnd (lift (case py_nth psk_ssids i of Inl e \<Rightarrow> Inl e | Inr d \<Rightarrow> getitem d ''number'')) (\<lambda>ssid_num.
     bnd (lift (case py_nth psk_ssids i of Inl e \<Rightarrow> Inl e | Inr d \<Rightarrow> getitem d ''name'')) (\<lambda>ssid_name.
     bnd (lift (case py_nth psk_ssids i of Inl e \<Rightarrow> Inl e | Inr d \<Rightarrow> getitem d ''net_id'')) (\<lambda>net_id.
     bnd (lift (getkey net_id_to_name net_id)) (\<lambda>net_name.
     bnd (input prompt_psk) (\<lambda>new_psk.
     bnd (change_ssid_psk dashboard net_id ssid_num new_psk) (\<lambda>configured.
     bnd (emit (if configured
                then Print [Val ssid_name, Lit '' of network '', Val (PStr net_name),
                            Lit '' configured with a new psk'']
                else Print [Lit ''There was an issue configuring a new psk for '', Val ssid_name,
                            Lit '' of network '', Val (PStr net_name)])) (\<lambda>_.
     input prompt_index))))))))"

function main_psk_loop ::
  "'d dashboard \<Rightarrow> (string \<Rightarrow> int option) \<Rightarrow> (pyval \<times> string) list \<Rightarrow> pydict list \<Rightarrow> string \<Rightarrow>
   ('d, unit) prog" where
  "main_psk_loop dashboard py_int net_id_to_name psk_ssids ssid_index w =
     (if py_lower ssid_index \<noteq> ''n'' then
        (case main_psk_body dashboard py_int net_id_to_name psk_ssids ssid_index w of
           (Inl e, w') \<Rightarrow> (Inl e, w')
         | (Inr nxt, w') \<Rightarrow> main_psk_loop dashboard py_int net_id_to_name psk_ssids nxt w')
      else (Inr (), w))"
  by pat_completeness auto
termination
  apply (relation "measure (\<lambda>(dashboard, py_int, net_id_to_name, psk_ssids, ssid_index, w). length (stdin w))")
   apply simp
  apply (drule sym)
  apply (auto simp: main_psk_body_def bnd_def lift_def input_def emit_def change_ssid_psk_def
          try_except_def call_def ret_def
        split: option.splits sum.splits prod.splits list.splits if_splits)
  done

definition main_psk ::
  "'d dashboard \<Rightarrow> (string \<Rightarrow> int option) \<Rightarrow> (pyval \<times> string) list \<Rightarrow> pydict list \<Rightarrow> ('d, unit) prog" where
  "main_psk dashboard py_int net_id_to_name psk_ssids =
     bnd (input prompt_index) (\<lambda>ssid_index.
     main_psk_loop dashboard py_int net_id_to_name psk_ssids ssid_index)"

text \<open>
  What \<open>main\<close> does once every name has resolved: the batch steps 3 to 7, up to the
  printed PSK listing, and then the interactive loop on that listing.
\<close>

definition main_batch ::
  "markup \<Rightarrow> 'd dashboard \<Rightarrow> string \<Rightarrow> (pyval \<times> string) list \<Rightarrow> ('d, pydict list) prog" where
  "main_batch renders dashboard ORG_ID net_id_to_name =
     bnd (emit (Panel [Lit ''Get all wireless networks from the Meraki organization''] ''Step 3'')) (\<lambda>_.
     bnd (get_wireless_networks dashboard ORG_ID) (\<lambda>wireless_networks.
     bnd (emit (Panel [Lit ''Retrieve all the SSIDs from the Meraki organization''] ''Step 4'')) (\<lambda>_.
     bnd (get_all_ssids renders dashboard wireless_networks) (\<lambda>all_ssids.
     bnd (lift (make_ssid_dict all_ssids)) (\<lambda>ssid_dict.
     bnd (emit (Panel [Lit ''Find which SSIDs need to be configured by AP tags''] ''Step 5'')) (\<lambda>_.
     bnd (main_match renders dashboard ORG_ID net_id_to_name all_ssids) (\<lambda>network_to_ssids.
     bnd (emit (Panel [Lit ''Configure networks with the necessary SSIDs''] ''Step 6'')) (\<lambda>_.
     bnd (main_configure renders dashboard net_id_to_name network_to_ssids ssid_dict) (\<lambda>ssid_dict'.
     bnd (emit (Panel [Lit ''Configure new passwords on SSIDs''] ''Step 7'')) (\<lambda>_.
     bnd (main_psk_list dashboard network_to_ssids) (\<lambda>psk_ssids.
     bnd (main_psk_print net_id_to_name psk_ssids) (\<lambda>_.
     ret psk_ssids))))))))))))"

definition main_steps ::
  "markup \<Rightarrow> 'd dashboard \<Rightarrow> (string \<Rightarrow> int option) \<Rightarrow> string \<Rightarrow> (pyval \<times> string) list \<Rightarrow>
   ('d, unit) prog" where
  "main_steps renders dashboard py_int ORG_ID net_id_to_name =
     bnd (main_batch renders dashboard ORG_ID net_id_to_name) (\<lambda>psk_ssids.
     main_psk dashboard py_int net_id_to_name psk_ssids)"

definition main ::
  "markup \<Rightarrow> 'd dashboard \<Rightarrow> (string \<Rightarrow> int option) \<Rightarrow> string \<Rightarrow> string list \<Rightarrow>
   ('d, unit) prog" where
  "main renders dashboard py_int ORG_ID NET_NAMES =
     bnd (emit (Panel [Lit ''Meraki AP SSID Configuration''] [])) (\<lambda>_.
     bnd (emit (Panel [Lit ''Connect to Meraki dashboard''] ''Step 1'')) (\<lambda>_.
     bnd (main_resolve renders dashboard ORG_ID NET_NAMES []) (\<lambda>r.
     case r of
       None \<Rightarrow> ret ()
     | Some net_id_to_name \<Rightarrow> main_steps renders dashboard py_int ORG_ID net_id_to_name)))"

section \<open>A small organization, for concrete runs\<close>

text \<open>
  Two wireless networks and one appliance-only network. Both wireless networks define an
  SSID named Guest, and in both an access point carries the tag Guest. Updates to
  Branch-B are refused by the dashboard; the dashboard's state counts the updates it
  has accepted.
\<close>

definition demo_networks :: "pydict list" where
  "demo_networks =
     [[(''id'', PStr ''N_1''), (''name'', PStr ''Branch-A''),
       (''productTypes'', PList [PStr ''wireless''])],
      [(''id'', PStr ''N_2''), (''name'', PStr ''Branch-B''),
       (''productTypes'', PList [PStr ''appliance'', PStr ''wireless''])],
      [(''id'', PStr ''N_3''), (''name'', PStr ''HQ''),
       (''productTypes'', PList [PStr ''appliance''])]]"

definition demo_guest :: pydict where
  "demo_guest = [(''number'', PInt 0), (''name'', PStr ''Guest''), (''enabled'', PBool True),
                 (''authMode'', PStr ''psk'')]"

definition demo_staff :: pydict where
  "demo_staff = [(''number'', PInt 1), (''name'', PStr ''Staff''), (''enabled'', PBool True),
                 (''authMode'', PStr ''psk'')]"

definition demo_spare :: pydict where
  "demo_spare = [(''number'', PInt 2), (''name'', PStr ''Unconfigured SSID 3''),
                 (''enabled'', PBool False), (''authMode'', PStr ''open'')]"

definition demo_guest_b :: pydict where
  "demo_guest_b = [(''number'', PInt 5), (''name'', PStr ''Guest''), (''enabled'', PBool False),
                   (''authMode'', PStr ''open'')]"

definition demo_ap :: pydict where
  "demo_ap = [(''serial'', PStr ''Q2XX-0001''), (''tags'', PList [PStr ''Guest''])]"

fun demo_dashboard :: "nat dashboard" where
  "demo_dashboard (GetOrganizationNetworks org) d = (Inr demo_networks, d)"
| "demo_dashboard (GetNetworkWirelessSsids n) d =
     ((if n = PStr ''N_1'' then Inr [demo_guest, demo_staff, demo_spare]
       else if n = PStr ''N_2'' then Inr [demo_guest_b]
       else Inl ''404 Not Found''), d)"
| "demo_dashboard (GetOrganizationDevices org n tag) d =
     ((if tag = PStr ''Guest'' \<and> (n = PStr ''N_1'' \<or> n = PStr ''N_2'') then Inr [demo_ap]
       else Inr []), d)"
| "demo_dashboard (UpdateNetworkWirelessSsid n k payload) d =
     (if n = PStr ''N_2'' then (Inl ''400 Bad Request'', d) else (Inr [], Suc d))"





definition demo_world :: "string list \<Rightarrow> nat world" where
  "demo_world lines = \<lparr>cloud = 0, stdin = lines, out = []\<rparr>"

text \<open>
  A markup check for the runs below. It agrees with rich on the texts used there:
  rich prints a text without an opening bracket as it is, and refuses a closing tag
  that closes nothing, such as \<open>[/x]\<close>. The check refuses a text when an interpolated
  string holds the two characters that open a closing tag.
\<close>

fun closes_tag :: "string \<Rightarrow> bool" where
  "closes_tag (c # d # cs) = ((c = CHR ''['' \<and> d = CHR ''/'') \<or> closes_tag (d # cs))"
| "closes_tag cs = False"

fun demo_frag_ok :: "frag \<Rightarrow> bool" where
  "demo_frag_ok (Val (PStr s)) = (\<not> closes_tag s)"
| "demo_frag_ok f = True"

definition demo_renders :: markup where
  "demo_renders txt = list_all demo_frag_ok txt"

text \<open>A parser for plain decimal numerals with an optional minus sign, to stand for \<open>int\<close>.\<close>

fun decimal_digits :: "string \<Rightarrow> nat \<Rightarrow> nat option" where
  "decimal_digits [] acc = Some acc"
| "decimal_digits (c # cs) acc =
     (if 48 \<le> (of_char c :: nat) \<and> (of_char c :: nat) \<le> 57
      then decimal_digits cs (10 * acc + ((of_char c :: nat) - 48))
      else None)"

fun decimal_int :: "string \<Rightarrow> int option" where
  "decimal_int [] = None"
| "decimal_int (c # cs) =
     (if c = CHR ''-'' then (if cs = [] then None else map_option (\<lambda>n. - int n) (decimal_digits cs 0))
      else map_option int (decimal_digits (c # cs) 0))"

section \<open>Notions used in the statements\<close>

text \<open>What the loop prints after a PSK update, by the outcome of the update call.\<close>

fun psk_report :: "pyval \<Rightarrow> string \<Rightarrow> string + pydict list \<Rightarrow> event list" where
  "psk_report ssid_name net_name (Inr response) =
     [Print [Val ssid_name, Lit '' of network '', Val (PStr net_name),
             Lit '' configured with a new psk'']]"
| "psk_report ssid_name net_name (Inl msg) =
     [Print [Lit ''There was an issue assigning a new password to the SSID for the following reason:''],
      Print [Exc (APIError msg)],
      Print [Lit ''There was an issue configuring a new psk for '', Val ssid_name,
             Lit '' of network '', Val (PStr net_name)]]"

text \<open>
  The dashboard that answers like \<open>dashboard\<close>, except that the device query \<open>q\<close>, when it
  succeeds, returns the access points \<open>extra\<close> as well.
\<close>

definition add_aps :: "'d dashboard \<Rightarrow> api_call \<Rightarrow> pydict list \<Rightarrow> 'd dashboard" where
  "add_aps dashboard q extra c d =
     (if c = q then
        (case dashboard c d of
           (Inr aps, d') \<Rightarrow> (Inr (aps @ extra), d')
         | (Inl msg, d') \<Rightarrow> (Inl msg, d'))
      else dashboard c d)"

text \<open>
  The SSID listings a stretch of transcript holds: for each successful call of
  \<open>getNetworkWirelessSsids\<close>, the network asked and the list returned, in call order.
\<close>

fun ssid_listings :: "event list \<Rightarrow> (pyval \<times> pydict list) list" where
  "ssid_listings [] = []"
| "ssid_listings (Call (GetNetworkWirelessSsids n) (Inr ssids) # evs) =
     (n, ssids) # ssid_listings evs"
| "ssid_listings (ev # evs) = ssid_listings evs"

definition fetched_ssids :: "event list \<Rightarrow> pydict list" where
  "fetched_ssids evs = concat (map snd (ssid_listings evs))"

text \<open>
  The PSK SSIDs among the listings of a stretch of transcript, each with the network it
  was listed for: network after network in call order, and within a network in the
  order of its list. \<open>psk_entry_of e c\<close> says that \<open>e\<close> is the entry
  \<open>{name, number, net_id}\<close> made from the candidate \<open>c\<close>.
\<close>

definition is_psk :: "pydict \<Rightarrow> bool" where
  "is_psk ssid = (map_of ssid ''authMode'' = Some (PStr ''psk''))"

definition psk_candidates :: "event list \<Rightarrow> (pyval \<times> pydict) list" where
  "psk_candidates evs =
     concat (map (\<lambda>(n, ssids). map (Pair n) (filter is_psk ssids)) (ssid_listings evs))"





text \<open>
  Whether a printed line shows the text \<open>s\<close>: as an interpolated string value, inside a
  literal part, or inside the text of a dashboard exception.
\<close>

fun frag_shows :: "string \<Rightarrow> frag \<Rightarrow> bool" where
  "frag_shows s (Lit t) = sublist s t"
| "frag_shows s (Val v) = (case v of PStr t \<Rightarrow> sublist s t | _ \<Rightarrow> False)"
| "frag_shows s (Exc e) = (case e of APIError msg \<Rightarrow> sublist s msg | _ \<Rightarrow> False)"

fun event_shows :: "string \<Rightarrow> event \<Rightarrow> bool" where
  "event_shows s (Print fs) = list_ex (frag_shows s) fs"
| "event_shows s ev = False"

section \<open>Properties\<close>

subsection \<open>Sequencing\<close>

lemma bnd_ret: "bnd (ret x) f w = f x w"
  by (simp add: bnd_def ret_def)
lemma bnd_lift_Inr: "bnd (lift (Inr x)) f w = f x w"
  by (simp add: bnd_def lift_def)
lemma bnd_lift_Inl: "bnd (lift (Inl e)) f w = (Inl e, w)"
  by (simp add: bnd_def lift_def)
lemma bnd_emit: "bnd (emit ev) f w = f () (w\<lparr>out := out w @ [ev]\<rparr>)"
  by (simp add: bnd_def emit_def)
lemma bnd_call:
  "dashboard c (cloud w) = (r, d') \<Longrightarrow>
   bnd (call dashboard c) f w =
     (case r of
        Inl msg \<Rightarrow> (Inl (APIError msg), w\<lparr>cloud := d', out := out w @ [Call c r]\<rparr>)
      | Inr v \<Rightarrow> f v (w\<lparr>cloud := d', out := out w @ [Call c r]\<rparr>))"
  by (simp add: bnd_def call_def split: sum.splits)

lemma bnd_console_print:
  "bnd (console_print renders shape txt) f w =
     (if renders txt then f () (w\<lparr>out := out w @ [shape txt]\<rparr>) else (Inl MarkupError, w))"
  by (simp add: bnd_def console_print_def emit_def raise_def)

lemmas bnd_simps = bnd_ret bnd_lift_Inr bnd_lift_Inl bnd_emit

subsection \<open>Network resolution\<close>

lemma get_network_id_loop_find:
  "\<forall>network \<in> set networks. map_of network ''name'' \<noteq> None \<Longrightarrow>
   get_network_id_loop networks net_name =
     (case find (\<lambda>network. map_of network ''name'' = Some (PStr net_name)) networks of
        None \<Rightarrow> Inr PNone
      | Some network \<Rightarrow> getitem network ''id'')"
  by (induction networks) (auto simp: getitem_def split: option.splits)

text \<open>
  C7. Name resolution compares the configured name with each network's name by exact,
  case-sensitive equality over the whole listing returned for the organization, and
  returns the identifier of the first network that matches. When no network bears
  exactly that name (for instance when the only candidates differ from it in case) the
  result is \<open>None\<close>.
\<close>

theorem get_network_id_first_exact_match:
  assumes "dashboard (GetOrganizationNetworks org_id) (cloud w) = (Inr networks, d')"
      and "\<forall>network \<in> set networks. map_of network ''name'' \<noteq> None"
  shows "get_network_id dashboard org_id net_name w =
           ((case find (\<lambda>network. map_of network ''name'' = Some (PStr net_name)) networks of
               None \<Rightarrow> Inr PNone
             | Some network \<Rightarrow> getitem network ''id''),
            w\<lparr>cloud := d', out := out w @ [Call (GetOrganizationNetworks org_id) (Inr networks)]\<rparr>)
         \<and> ((\<forall>network \<in> set networks. map_of network ''name'' \<noteq> Some (PStr net_name)) \<longrightarrow>
              fst (get_network_id dashboard org_id net_name w) = Inr PNone)"
proof -
  have run: "get_network_id dashboard org_id net_name w =
      (get_network_id_loop networks net_name,
       w\<lparr>cloud := d', out := out w @ [Call (GetOrganizationNetworks org_id) (Inr networks)]\<rparr>)"
    using assms(1) by (simp add: get_network_id_def bnd_call lift_def)
  have none: "find (\<lambda>network. map_of network ''name'' = Some (PStr net_name)) networks = None"
    if "\<forall>network \<in> set networks. map_of network ''name'' \<noteq> Some (PStr net_name)"
    using that by (simp add: find_None_iff)
  show ?thesis
    using run none by (simp add: get_network_id_loop_find [OF assms(2)])
qed

theorem get_network_id_first_exact_match_witness:
  "get_network_id demo_dashboard ''org'' ''Branch-B'' (demo_world []) =
     (Inr (PStr ''N_2''),
      \<lparr>cloud = 0, stdin = [], out = [Call (GetOrganizationNetworks ''org'') (Inr demo_networks)]\<rparr>)
   \<and> fst (get_network_id demo_dashboard ''org'' ''branch-b'' (demo_world [])) = Inr PNone"
proof -
  have h1: "demo_dashboard (GetOrganizationNetworks ''org'') (cloud (demo_world [])) = (Inr demo_networks, 0)"
    by (simp add: demo_world_def)
  have h2: "\<forall>network \<in> set demo_networks. map_of network ''name'' \<noteq> None"
    by (simp add: demo_networks_def)
  have h3: "\<forall>network \<in> set demo_networks. map_of network ''name'' \<noteq> Some (PStr ''branch-b'')"
    by (simp add: demo_networks_def)
  from get_network_id_first_exact_match
         [where dashboard = demo_dashboard and w = "demo_world []" and net_name = "''Branch-B''", OF h1 h2]
       get_network_id_first_exact_match
         [where dashboard = demo_dashboard and w = "demo_world []" and net_name = "''branch-b''", OF h1 h2] h3
  show ?thesis
    by (simp add: demo_networks_def demo_world_def getitem_def)
qed

subsection \<open>The configurator\<close>

lemma try_except_call:
  "dashboard c (cloud w) = (r, d') \<Longrightarrow>
   try_except (bnd (call dashboard c) f) handler w =
     (case r of
        Inl msg \<Rightarrow> handler (APIError msg) (w\<lparr>cloud := d', out := out w @ [Call c r]\<rparr>)
      | Inr v \<Rightarrow> try_except (f v) handler (w\<lparr>cloud := d', out := out w @ [Call c r]\<rparr>))"
  by (simp add: try_except_def bnd_def call_def split: sum.splits)

lemma try_except_ret: "try_except (ret x) handler w = (Inr x, w)"
  by (simp add: try_except_def ret_def)

lemma getitem_update_same: "getitem (AList.update k v d) k = Inr v"
  by (simp add: getitem_def update_conv')

text \<open>What one call of the configurator does, by the outcome of its update call.\<close>

lemma configure_net_ssids_run:
  assumes "dashboard (UpdateNetworkWirelessSsid net_id (PInt 3)
             (AList.delete ''number'' ssid_config)) (cloud w) = (r, d')"
  shows "configure_net_ssids dashboard net_id ssid_config w =
     (case r of
        Inr response \<Rightarrow>
          (Inr (True, AList.delete ''number'' ssid_config),
           w\<lparr>cloud := d',
             out := out w @ [Call (UpdateNetworkWirelessSsid net_id (PInt 3)
                       (AList.delete ''number'' ssid_config)) r]\<rparr>)
      | Inl msg \<Rightarrow>
          (case map_of ssid_config ''name'' of
             None \<Rightarrow>
               (Inl (KeyError (PStr ''name'')),
                w\<lparr>cloud := d',
                  out := out w @ [Call (UpdateNetworkWirelessSsid net_id (PInt 3)
                       (AList.delete ''number'' ssid_config)) r]\<rparr>)
           | Some n \<Rightarrow>
               (Inr (False, AList.delete ''number'' ssid_config),
                w\<lparr>cloud := d',
                  out := out w @
                    [Call (UpdateNetworkWirelessSsid net_id (PInt 3)
                       (AList.delete ''number'' ssid_config)) r,
                     Print [Lit ''There was an issue configuring the SSID '', Val n,
                            Lit '' for the following reason:''],
                     Print [Exc (APIError msg)]]\<rparr>)))"
    (is "_ = ?rhs")
proof -
  have name: "getitem (AList.delete ''number'' ssid_config) ''name'' =
      (case map_of ssid_config ''name'' of None \<Rightarrow> Inl (KeyError (PStr ''name'')) | Some n \<Rightarrow> Inr n)"
    by (simp add: getitem_def)
  have "configure_net_ssids dashboard net_id ssid_config w =
      try_except
        (bnd (call dashboard (UpdateNetworkWirelessSsid net_id (PInt 3)
                (AList.delete ''number'' ssid_config)))
           (\<lambda>response. ret (True, AList.delete ''number'' ssid_config)))
        (\<lambda>e.
           bnd (lift (getitem (AList.delete ''number'' ssid_config) ''name'')) (\<lambda>n.
           bnd (emit (Print [Lit ''There was an issue configuring the SSID '', Val n,
                             Lit '' for the following reason:''])) (\<lambda>_.
           bnd (emit (Print [Exc e])) (\<lambda>_.
           ret (False, AList.delete ''number'' ssid_config))))) w"
    by (simp add: configure_net_ssids_def Let_def getitem_update_same bnd_lift_Inr
          delete_update_same)
  also have "\<dots> = ?rhs"
    using assms
    by (simp add: try_except_call try_except_ret name bnd_lift_Inr bnd_lift_Inl bnd_emit bnd_ret
          ret_def
        split: sum.splits option.splits)
  finally show ?thesis .
qed

text \<open>
  C2. Whatever record the configurator is given, and whatever slot number that record
  carries, the configurator submits one request to the dashboard: an update of slot 3 of
  the target network whose payload is the record without its \<open>number\<close> entry, every
  other field in order and unchanged. The dashboard is left in the state that request
  puts it in, and the transcript records the request with the answer the dashboard
  gave. The call returns \<open>True\<close> when the dashboard accepts the request and \<open>False\<close> when
  it refuses (KeyError, if the record has no name to report). Anything else the call
  adds to the transcript is printed text.
\<close>

theorem configure_net_ssids_targets_slot_3:
  "let payload = filter (\<lambda>(k, v). k \<noteq> ''number'') ssid_config;
       request = UpdateNetworkWirelessSsid net_id (PInt 3) payload;
       answer = fst (dashboard request (cloud w));
       result = (case answer of
                   Inr response \<Rightarrow> Inr (True, payload)
                 | Inl msg \<Rightarrow>
                     (case map_of ssid_config ''name'' of
                        Some n \<Rightarrow> Inr (False, payload)
                      | None \<Rightarrow> Inl (KeyError (PStr ''name''))))
   in \<exists>log.
        configure_net_ssids dashboard net_id ssid_config w =
          (result,
           w\<lparr>cloud := snd (dashboard request (cloud w)),
             out := out w @ Call request answer # log\<rparr>)
        \<and> (\<forall>e \<in> set log. \<exists>fs. e = Print fs)"
proof -
  have payload: "filter (\<lambda>(k, v). k \<noteq> ''number'') ssid_config = AList.delete ''number'' ssid_config"
    by (simp add: AList.delete_eq case_prod_unfold eq_commute)
  obtain r d' where r: "dashboard (UpdateNetworkWirelessSsid net_id (PInt 3)
             (AList.delete ''number'' ssid_config)) (cloud w) = (r, d')"
    by (cases "dashboard (UpdateNetworkWirelessSsid net_id (PInt 3)
             (AList.delete ''number'' ssid_config)) (cloud w)")
  note run = configure_net_ssids_run [where dashboard = dashboard and w = w, OF r]
  show ?thesis
  proof (cases r)
    case (Inr response)
    show ?thesis
      unfolding Let_def payload r fst_conv snd_conv run
      by (rule exI [of _ "[]"]) (simp add: Inr)
  next
    case (Inl msg)
    show ?thesis
    proof (cases "map_of ssid_config ''name''")
      case None
      show ?thesis
        unfolding Let_def payload r fst_conv snd_conv run
        by (rule exI [of _ "[]"]) (simp add: Inl None)
    next
      case (Some n)
      show ?thesis
        unfolding Let_def payload r fst_conv snd_conv run
        by (rule exI [of _ "[Print [Lit ''There was an issue configuring the SSID '', Val n,
                                    Lit '' for the following reason:''],
                             Print [Exc (APIError msg)]]"])
           (simp add: Inl Some)
    qed
  qed
qed

theorem configure_net_ssids_targets_slot_3_witness:
  "\<exists>log.
     configure_net_ssids demo_dashboard (PStr ''N_1'') demo_guest_b (demo_world []) =
       (Inr (True, [(''name'', PStr ''Guest''), (''enabled'', PBool False),
                    (''authMode'', PStr ''open'')]),
        \<lparr>cloud = Suc 0, stdin = [],
         out = Call (UpdateNetworkWirelessSsid (PStr ''N_1'') (PInt 3)
                       [(''name'', PStr ''Guest''), (''enabled'', PBool False),
                        (''authMode'', PStr ''open'')]) (Inr []) # log\<rparr>)
     \<and> (\<forall>e \<in> set log. \<exists>fs. e = Print fs)"
  using configure_net_ssids_targets_slot_3
    [where dashboard = demo_dashboard and net_id = "PStr ''N_1''" and ssid_config = demo_guest_b
       and w = "demo_world []"]
  by (simp add: demo_guest_b_def demo_world_def Let_def)

lemma configure_net_ssids_returns:
  assumes "configure_net_ssids dashboard net_id ssid_config w = (Inr (b, cfg'), w')"
  shows "cfg' = AList.delete ''number'' ssid_config"
proof -
  obtain r d' where r: "dashboard (UpdateNetworkWirelessSsid net_id (PInt 3)
             (AList.delete ''number'' ssid_config)) (cloud w) = (r, d')"
    by (cases "dashboard (UpdateNetworkWirelessSsid net_id (PInt 3)
             (AList.delete ''number'' ssid_config)) (cloud w)")
  show ?thesis
    using assms
    unfolding configure_net_ssids_run [where dashboard = dashboard and w = w, OF r]
    by (auto split: sum.splits option.splits)
qed

lemma configure_net_ssids_total:
  assumes "map_of ssid_config ''name'' = Some n"
  shows "\<exists>b w'. configure_net_ssids dashboard net_id ssid_config w =
           (Inr (b, AList.delete ''number'' ssid_config), w')"
proof -
  obtain r d' where r: "dashboard (UpdateNetworkWirelessSsid net_id (PInt 3)
             (AList.delete ''number'' ssid_config)) (cloud w) = (r, d')"
    by (cases "dashboard (UpdateNetworkWirelessSsid net_id (PInt 3)
             (AList.delete ''number'' ssid_config)) (cloud w)")
  show ?thesis
    unfolding configure_net_ssids_run [where dashboard = dashboard and w = w, OF r]
    using assms by (cases r) auto
qed

lemma configure_net_ssids_ignores_number:
  "configure_net_ssids dashboard net_id (AList.delete ''number'' ssid_config) w =
     configure_net_ssids dashboard net_id ssid_config w"
  "configure_net_ssids dashboard net_id (AList.update ''number'' v ssid_config) w =
     configure_net_ssids dashboard net_id ssid_config w"
proof -
  obtain r d' where r: "dashboard (UpdateNetworkWirelessSsid net_id (PInt 3)
             (AList.delete ''number'' ssid_config)) (cloud w) = (r, d')"
    by (cases "dashboard (UpdateNetworkWirelessSsid net_id (PInt 3)
             (AList.delete ''number'' ssid_config)) (cloud w)")
  have r1: "dashboard (UpdateNetworkWirelessSsid net_id (PInt 3)
             (AList.delete ''number'' (AList.delete ''number'' ssid_config))) (cloud w) = (r, d')"
    using r by (simp add: delete_idem)
  have r2: "dashboard (UpdateNetworkWirelessSsid net_id (PInt 3)
             (AList.delete ''number'' (AList.update ''number'' v ssid_config))) (cloud w) = (r, d')"
    using r by (simp add: delete_update_same)
  show "configure_net_ssids dashboard net_id (AList.delete ''number'' ssid_config) w =
     configure_net_ssids dashboard net_id ssid_config w"
    unfolding configure_net_ssids_run [where dashboard = dashboard and w = w, OF r]
      configure_net_ssids_run [where dashboard = dashboard and w = w, OF r1]
    by (cases r; cases "map_of ssid_config ''name''") (simp_all add: delete_idem)
  show "configure_net_ssids dashboard net_id (AList.update ''number'' v ssid_config) w =
     configure_net_ssids dashboard net_id ssid_config w"
    unfolding configure_net_ssids_run [where dashboard = dashboard and w = w, OF r]
      configure_net_ssids_run [where dashboard = dashboard and w = w, OF r2]
    by (cases r; cases "map_of ssid_config ''name''")
       (simp_all add: delete_update_same update_conv')
qed

text \<open>The catalog across the configuration loops of \<open>main\<close>.\<close>

lemma main_configure_ssid_catalog:
  assumes "main_configure_ssid dashboard net_id_to_name net_id ssid_name ssid_dict w =
             (Inr ssid_dict', w')"
  shows "\<exists>ssid. map_of ssid_dict ssid_name = Some ssid \<and>
           ssid_dict' = AList.update ssid_name (AList.delete ''number'' ssid) ssid_dict"
proof (cases "map_of ssid_dict ssid_name")
  case None
  with assms show ?thesis
    by (simp add: main_configure_ssid_def getkey_def bnd_lift_Inl)
next
  case (Some ssid)
  show ?thesis
  proof (cases "configure_net_ssids dashboard net_id ssid w")
    case (Pair res w1)
    show ?thesis
    proof (cases res)
      case (Inl e)
      with assms Some Pair show ?thesis
        by (simp add: main_configure_ssid_def getkey_def bnd_def lift_def)
    next
      case (Inr p)
      obtain b cfg' where p: "p = (b, cfg')" by (cases p)
      have cfg': "cfg' = AList.delete ''number'' ssid"
        using Pair Inr p
        by (auto dest: configure_net_ssids_returns [where dashboard = dashboard])
      from assms Some Pair Inr p cfg' show ?thesis
        by (auto simp: main_configure_ssid_def getkey_def bnd_def lift_def
              emit_def ret_def split: option.splits sum.splits prod.splits)
    qed
  qed
qed

lemma configure_loop_catalog:
  "for_loop (main_configure_ssid dashboard net_id_to_name net_id) ssid_names ssid_dict w =
     (Inr ssid_dict', w') \<Longrightarrow>
   map_of ssid_dict' name =
     (if name \<in> set ssid_names then map_option (AList.delete ''number'') (map_of ssid_dict name)
      else map_of ssid_dict name)"
proof (induction ssid_names arbitrary: ssid_dict w)
  case Nil
  then show ?case by simp
next
  case (Cons x xs)
  from Cons.prems obtain d1 w1 where
    step: "main_configure_ssid dashboard net_id_to_name net_id x ssid_dict w = (Inr d1, w1)"
    and rest: "for_loop (main_configure_ssid dashboard net_id_to_name net_id) xs d1 w1 =
                 (Inr ssid_dict', w')"
    by (auto split: prod.splits sum.splits)
  from main_configure_ssid_catalog [OF step] obtain ssid where
    ssid: "map_of ssid_dict x = Some ssid"
    and d1: "d1 = AList.update x (AList.delete ''number'' ssid) ssid_dict"
    by blast
  show ?case
    using Cons.IH [OF rest] ssid d1
    by (auto simp: update_conv' delete_idem)
qed

lemma configure_nets_catalog:
  "for_loop (main_configure_net renders dashboard net_id_to_name network_to_ssids) nets ssid_dict w =
     (Inr ssid_dict', w') \<Longrightarrow>
   map_of ssid_dict' name =
     (if \<exists>net_id \<in> set nets. \<exists>ssid_names. map_of network_to_ssids net_id = Some ssid_names \<and>
            name \<in> set ssid_names
      then map_option (AList.delete ''number'') (map_of ssid_dict name)
      else map_of ssid_dict name)"
proof (induction nets arbitrary: ssid_dict w)
  case Nil
  then show ?case by simp
next
  case (Cons x xs)
  from Cons.prems obtain d1 w1 where
    step: "main_configure_net renders dashboard net_id_to_name network_to_ssids x ssid_dict w = (Inr d1, w1)"
    and rest: "for_loop (main_configure_net renders dashboard net_id_to_name network_to_ssids) xs d1 w1 =
                 (Inr ssid_dict', w')"
    by (auto split: prod.splits sum.splits)
  from step obtain ssid_names w0 where
    names: "map_of network_to_ssids x = Some ssid_names"
    and inner: "for_loop (main_configure_ssid dashboard net_id_to_name x) ssid_names ssid_dict w0 =
                  (Inr d1, w1)"
    by (auto simp: main_configure_net_def getkey_def bnd_def lift_def emit_def
          split: option.splits sum.splits prod.splits)
  have d1: "map_of d1 name =
     (if name \<in> set ssid_names then map_option (AList.delete ''number'') (map_of ssid_dict name)
      else map_of ssid_dict name)"
    by (rule configure_loop_catalog [OF inner])
  show ?case
    unfolding Cons.IH [OF rest] d1 using names
    by (cases "map_of ssid_dict name") (auto simp: delete_idem)
qed

text \<open>
  C8. A call of the configurator that returns, with \<open>True\<close> or with \<open>False\<close>, leaves the
  record without a \<open>number\<close> entry and with every other field as it was; it returns
  whenever the record has a name. The call behaves the same whether or not the record
  had a \<open>number\<close> entry, and whatever its value. The record is the catalog's entry, so
  after the configuration loops the catalog holds, for every SSID name configured on
  some network, the record without \<open>number\<close>, and every other entry untouched: later
  configurations of the same name are handed the record already stripped.
\<close>

theorem configure_net_ssids_strips_number:
  "(\<forall>b cfg' w'. configure_net_ssids dashboard net_id ssid_config w = (Inr (b, cfg'), w') \<longrightarrow>
      cfg' = filter (\<lambda>(k, v). k \<noteq> ''number'') ssid_config \<and>
      map_of cfg' ''number'' = None \<and>
      (\<forall>k. k \<noteq> ''number'' \<longrightarrow> map_of cfg' k = map_of ssid_config k))
   \<and> (map_of ssid_config ''name'' \<noteq> None \<longrightarrow>
        (\<exists>b w'. configure_net_ssids dashboard net_id ssid_config w =
                  (Inr (b, filter (\<lambda>(k, v). k \<noteq> ''number'') ssid_config), w')))
   \<and> configure_net_ssids dashboard net_id (AList.delete ''number'' ssid_config) w =
       configure_net_ssids dashboard net_id ssid_config w
   \<and> configure_net_ssids dashboard net_id (AList.update ''number'' v ssid_config) w =
       configure_net_ssids dashboard net_id ssid_config w
   \<and> (\<forall>ssid_dict' w'.
        main_configure renders dashboard net_id_to_name network_to_ssids ssid_dict w =
          (Inr ssid_dict', w') \<longrightarrow>
        (\<forall>name. map_of ssid_dict' name =
           (if \<exists>n \<in> fst ` set network_to_ssids. \<exists>ssid_names.
                  map_of network_to_ssids n = Some ssid_names \<and> name \<in> set ssid_names
            then map_option (filter (\<lambda>(k, v). k \<noteq> ''number'')) (map_of ssid_dict name)
            else map_of ssid_dict name)))"
proof -
  have payload: "AList.delete ''number'' = filter (\<lambda>(k, v). k \<noteq> ''number'')"
    by (simp add: AList.delete_eq case_prod_unfold eq_commute)
  have returns: "cfg' = AList.delete ''number'' ssid_config \<and>
      map_of cfg' ''number'' = None \<and>
      (\<forall>k. k \<noteq> ''number'' \<longrightarrow> map_of cfg' k = map_of ssid_config k)"
    if "configure_net_ssids dashboard net_id ssid_config w = (Inr (b, cfg'), w')" for b cfg' w'
    using configure_net_ssids_returns [where dashboard = dashboard, OF that]
    by (simp add: delete_conv')
  have total: "\<exists>b w'. configure_net_ssids dashboard net_id ssid_config w =
                  (Inr (b, AList.delete ''number'' ssid_config), w')"
    if "map_of ssid_config ''name'' \<noteq> None"
    using that configure_net_ssids_total [where dashboard = dashboard and ssid_config = ssid_config]
    by auto
  have loops: "map_of ssid_dict' name =
           (if \<exists>n \<in> fst ` set network_to_ssids. \<exists>ssid_names.
                  map_of network_to_ssids n = Some ssid_names \<and> name \<in> set ssid_names
            then map_option (AList.delete ''number'') (map_of ssid_dict name)
            else map_of ssid_dict name)"
    if "main_configure renders dashboard net_id_to_name network_to_ssids ssid_dict w = (Inr ssid_dict', w')"
    for ssid_dict' w' name
    using configure_nets_catalog [where dashboard = dashboard and name = name,
        OF that [unfolded main_configure_def]]
    by simp
  have A: "\<forall>b cfg' w'. configure_net_ssids dashboard net_id ssid_config w = (Inr (b, cfg'), w') \<longrightarrow>
      cfg' = AList.delete ''number'' ssid_config \<and>
      map_of cfg' ''number'' = None \<and>
      (\<forall>k. k \<noteq> ''number'' \<longrightarrow> map_of cfg' k = map_of ssid_config k)"
    using returns by blast
  have B: "map_of ssid_config ''name'' \<noteq> None \<longrightarrow>
        (\<exists>b w'. configure_net_ssids dashboard net_id ssid_config w =
                  (Inr (b, AList.delete ''number'' ssid_config), w'))"
    using total by blast
  have C: "\<forall>ssid_dict' w'.
        main_configure renders dashboard net_id_to_name network_to_ssids ssid_dict w =
          (Inr ssid_dict', w') \<longrightarrow>
        (\<forall>name. map_of ssid_dict' name =
           (if \<exists>n \<in> fst ` set network_to_ssids. \<exists>ssid_names.
                  map_of network_to_ssids n = Some ssid_names \<and> name \<in> set ssid_names
            then map_option (AList.delete ''number'') (map_of ssid_dict name)
            else map_of ssid_dict name))"
    using loops by blast
  show ?thesis
    unfolding payload [symmetric]
    by (intro conjI A B C configure_net_ssids_ignores_number)
qed

theorem configure_net_ssids_strips_number_witness:
  "fst (configure_net_ssids demo_dashboard (PStr ''N_2'') demo_guest_b (demo_world [])) =
     Inr (False, [(''name'', PStr ''Guest''), (''enabled'', PBool False),
                  (''authMode'', PStr ''open'')])
   \<and> fst (main_configure demo_renders demo_dashboard
            [(PStr ''N_1'', ''Branch-A''), (PStr ''N_2'', ''Branch-B'')]
            [(PStr ''N_1'', [PStr ''Guest'']), (PStr ''N_2'', [PStr ''Guest''])]
            [(PStr ''Guest'', demo_guest_b), (PStr ''Staff'', demo_staff)]
            (demo_world [])) =
       Inr [(PStr ''Guest'', [(''name'', PStr ''Guest''), (''enabled'', PBool False),
                              (''authMode'', PStr ''open'')]),
            (PStr ''Staff'', demo_staff)]"
  using configure_net_ssids_strips_number
    [where dashboard = demo_dashboard and net_id = "PStr ''N_2''" and ssid_config = demo_guest_b
       and w = "demo_world []" and renders = demo_renders
       and net_id_to_name = "[(PStr ''N_1'', ''Branch-A''), (PStr ''N_2'', ''Branch-B'')]"
       and network_to_ssids = "[(PStr ''N_1'', [PStr ''Guest'']), (PStr ''N_2'', [PStr ''Guest''])]"
       and ssid_dict = "[(PStr ''Guest'', demo_guest_b), (PStr ''Staff'', demo_staff)]"
       and v = "PInt 7"]
  by (simp add: main_configure_def main_configure_net_def main_configure_ssid_def
        configure_net_ssids_def bnd_def lift_def emit_def ret_def call_def try_except_def
        console_print_def demo_renders_def
        getkey_def getitem_def demo_guest_b_def demo_world_def Let_def)

subsection \<open>The PSK loop\<close>

lemma change_ssid_psk_run:
  assumes "dashboard (UpdateNetworkWirelessSsid net_id ssid_num
             [(''authMode'', PStr ''psk''), (''psk'', PStr psk)]) (cloud w) = (r, d')"
  shows "change_ssid_psk dashboard net_id ssid_num psk w =
     (case r of
        Inr response \<Rightarrow>
          (Inr True,
           w\<lparr>cloud := d',
             out := out w @ [Call (UpdateNetworkWirelessSsid net_id ssid_num
                       [(''authMode'', PStr ''psk''), (''psk'', PStr psk)]) r]\<rparr>)
      | Inl msg \<Rightarrow>
          (Inr False,
           w\<lparr>cloud := d',
             out := out w @
               [Call (UpdateNetworkWirelessSsid net_id ssid_num
                       [(''authMode'', PStr ''psk''), (''psk'', PStr psk)]) r,
                Print [Lit ''There was an issue assigning a new password to the SSID for the following reason:''],
                Print [Exc (APIError msg)]]\<rparr>))"
  using assms
  by (simp add: change_ssid_psk_def try_except_call try_except_ret bnd_emit ret_def
      split: sum.splits)

lemma world_upd_swap:
  "w\<lparr>stdin := a, cloud := b\<rparr> = w\<lparr>cloud := b, stdin := a\<rparr>"
  by simp

lemma bnd_input:
  "stdin w = l # ls \<Longrightarrow>
   bnd (input prompt) f w = f l (w\<lparr>stdin := ls, out := out w @ [Input prompt (Some l)]\<rparr>)"
  by (simp add: bnd_def input_def)

text \<open>One turn of the loop on a line that selects an entry of the listing.\<close>

lemma main_psk_body_run:
  assumes "py_int ssid_index = Some i"
      and "py_nth psk_ssids i = Inr entry"
      and "map_of entry ''number'' = Some ssid_num"
      and "map_of entry ''name'' = Some ssid_name"
      and "map_of entry ''net_id'' = Some net_id"
      and "map_of net_id_to_name net_id = Some net_name"
      and "stdin w = new_psk # rest"
      and "dashboard (UpdateNetworkWirelessSsid net_id ssid_num
             [(''authMode'', PStr ''psk''), (''psk'', PStr new_psk)])
             (cloud w) = (r, d')"
  shows "main_psk_body dashboard py_int net_id_to_name psk_ssids ssid_index w =
     input prompt_index
       (w\<lparr>cloud := d', stdin := rest,
          out := out w @
            Input prompt_psk (Some new_psk) #
            Call (UpdateNetworkWirelessSsid net_id ssid_num
                    [(''authMode'', PStr ''psk''), (''psk'', PStr new_psk)]) r #
            psk_report ssid_name net_name r\<rparr>)"
proof -
  let ?w1 = "w\<lparr>stdin := rest, out := out w @ [Input prompt_psk (Some new_psk)]\<rparr>"
  have call: "dashboard (UpdateNetworkWirelessSsid net_id ssid_num
             [(''authMode'', PStr ''psk''), (''psk'', PStr new_psk)]) (cloud ?w1) = (r, d')"
    using assms(8) by simp
  have "main_psk_body dashboard py_int net_id_to_name psk_ssids ssid_index w =
      bnd (change_ssid_psk dashboard net_id ssid_num new_psk) (\<lambda>configured.
      bnd (emit (if configured
                 then Print [Val ssid_name, Lit '' of network '', Val (PStr net_name),
                             Lit '' configured with a new psk'']
                 else Print [Lit ''There was an issue configuring a new psk for '', Val ssid_name,
                             Lit '' of network '', Val (PStr net_name)])) (\<lambda>_.
      input prompt_index)) ?w1"
    using assms(1-7)
    by (simp add: main_psk_body_def bnd_lift_Inr getitem_def getkey_def bnd_input)
  also have "\<dots> = input prompt_index
       (w\<lparr>cloud := d', stdin := rest,
          out := out w @
            Input prompt_psk (Some new_psk) #
            Call (UpdateNetworkWirelessSsid net_id ssid_num
                    [(''authMode'', PStr ''psk''), (''psk'', PStr new_psk)]) r #
            psk_report ssid_name net_name r\<rparr>)"
    by (cases r)
       (simp_all add: bnd_def change_ssid_psk_run [where dashboard = dashboard, OF call] emit_def
          world_upd_swap)
  finally show ?thesis .
qed

lemma main_psk_stop:
  assumes "stdin w = l # rest" and "py_lower l = ''n''"
  shows "main_psk dashboard py_int net_id_to_name psk_ssids w =
           (Inr (), w\<lparr>stdin := rest, out := out w @ [Input prompt_index (Some l)]\<rparr>)"
  using assms by (simp add: main_psk_def bnd_input)

lemma main_psk_step:
  assumes "stdin w = l # new_psk # rest"
      and "py_lower l \<noteq> ''n''"
      and "py_int l = Some i"
      and "py_nth psk_ssids i = Inr entry"
      and "map_of entry ''number'' = Some ssid_num"
      and "map_of entry ''name'' = Some ssid_name"
      and "map_of entry ''net_id'' = Some net_id"
      and "map_of net_id_to_name net_id = Some net_name"
      and "dashboard (UpdateNetworkWirelessSsid net_id ssid_num
             [(''authMode'', PStr ''psk''), (''psk'', PStr new_psk)])
             (cloud w) = (r, d')"
  shows "main_psk dashboard py_int net_id_to_name psk_ssids w =
     main_psk dashboard py_int net_id_to_name psk_ssids
       (w\<lparr>cloud := d', stdin := rest,
          out := out w @
            Input prompt_index (Some l) #
            Input prompt_psk (Some new_psk) #
            Call (UpdateNetworkWirelessSsid net_id ssid_num
                    [(''authMode'', PStr ''psk''), (''psk'', PStr new_psk)]) r #
            psk_report ssid_name net_name r\<rparr>)"
proof -
  let ?w1 = "w\<lparr>stdin := new_psk # rest, out := out w @ [Input prompt_index (Some l)]\<rparr>"
  have s1: "stdin ?w1 = new_psk # rest" by simp
  have c1: "dashboard (UpdateNetworkWirelessSsid net_id ssid_num
             [(''authMode'', PStr ''psk''), (''psk'', PStr new_psk)]) (cloud ?w1) = (r, d')"
    using assms(9) by simp
  have "main_psk dashboard py_int net_id_to_name psk_ssids w =
          main_psk_loop dashboard py_int net_id_to_name psk_ssids l ?w1"
    using assms(1) by (simp add: main_psk_def bnd_input)
  also have "\<dots> =
     (case main_psk_body dashboard py_int net_id_to_name psk_ssids l ?w1 of
        (Inl e, w') \<Rightarrow> (Inl e, w')
      | (Inr nxt, w') \<Rightarrow> main_psk_loop dashboard py_int net_id_to_name psk_ssids nxt w')"
    using assms(2) by simp
  also have "\<dots> = main_psk dashboard py_int net_id_to_name psk_ssids
       (w\<lparr>cloud := d', stdin := rest,
          out := out w @
            Input prompt_index (Some l) #
            Input prompt_psk (Some new_psk) #
            Call (UpdateNetworkWirelessSsid net_id ssid_num
                    [(''authMode'', PStr ''psk''), (''psk'', PStr new_psk)]) r #
            psk_report ssid_name net_name r\<rparr>)"
    unfolding main_psk_body_run [where dashboard = dashboard and w = ?w1 and py_int = py_int,
        OF assms(3-8) s1 c1]
    by (simp add: main_psk_def bnd_def del: main_psk_loop.simps
        split: prod.splits sum.splits)
  finally show ?thesis .
qed

lemma main_psk_value_error:
  assumes "stdin w = l # rest" and "py_lower l \<noteq> ''n''" and "py_int l = None"
  shows "main_psk dashboard py_int net_id_to_name psk_ssids w =
           (Inl (ValueError l), w\<lparr>stdin := rest, out := out w @ [Input prompt_index (Some l)]\<rparr>)"
  using assms by (simp add: main_psk_def bnd_input main_psk_body_def bnd_lift_Inl)

lemma main_psk_index_error:
  assumes "stdin w = l # rest" and "py_lower l \<noteq> ''n''" and "py_int l = Some i"
      and "i < - int (length psk_ssids) \<or> int (length psk_ssids) \<le> i"
  shows "main_psk dashboard py_int net_id_to_name psk_ssids w =
           (Inl IndexError, w\<lparr>stdin := rest, out := out w @ [Input prompt_index (Some l)]\<rparr>)"
proof -
  have "py_nth psk_ssids i = Inl IndexError"
    using assms(4) by (auto simp: py_nth_def)
  then show ?thesis
    using assms(1-3)
    by (simp add: main_psk_def bnd_input main_psk_body_def bnd_lift_Inl bnd_lift_Inr)
qed

lemma main_psk_body_last:
  assumes "main_psk_body dashboard py_int net_id_to_name psk_ssids ssid_index w = (Inr nxt, w')"
  shows "out w' \<noteq> [] \<and> last (out w') = Input prompt_index (Some nxt)"
  using assms
  by (auto simp: main_psk_body_def bnd_def lift_def input_def emit_def change_ssid_psk_def
        try_except_def call_def ret_def
      split: option.splits sum.splits prod.splits list.splits if_splits)

lemma main_psk_loop_returns:
  "main_psk_loop dashboard py_int net_id_to_name psk_ssids ssid_index w = (Inr (), w') \<Longrightarrow>
   (py_lower ssid_index = ''n'' \<and> w' = w) \<or>
   (\<exists>l. out w' \<noteq> [] \<and> last (out w') = Input prompt_index (Some l) \<and> py_lower l = ''n'')"
proof (induction dashboard py_int net_id_to_name psk_ssids ssid_index w
       rule: main_psk_loop.induct)
  case (1 dashboard py_int net_id_to_name psk_ssids ssid_index w)
  show ?case
  proof (cases "py_lower ssid_index = ''n''")
    case True
    with "1.prems" show ?thesis by simp
  next
    case False
    with "1.prems" obtain nxt w1 where
      body: "main_psk_body dashboard py_int net_id_to_name psk_ssids ssid_index w = (Inr nxt, w1)"
      and rest: "main_psk_loop dashboard py_int net_id_to_name psk_ssids nxt w1 = (Inr (), w')"
      by (auto split: prod.splits sum.splits)
    from "1.IH" [OF False body [symmetric] refl rest] main_psk_body_last [OF body]
    show ?thesis by auto
  qed
qed

lemma main_psk_returns:
  assumes "main_psk dashboard py_int net_id_to_name psk_ssids w = (Inr (), w')"
  shows "\<exists>l. out w' \<noteq> [] \<and> last (out w') = Input prompt_index (Some l) \<and> py_lower l = ''n''"
proof -
  from assms obtain l w1 where
    inp: "input prompt_index w = (Inr l, w1)"
    and loop: "main_psk_loop dashboard py_int net_id_to_name psk_ssids l w1 = (Inr (), w')"
    by (auto simp: main_psk_def bnd_def split: prod.splits sum.splits)
  from inp have "out w1 \<noteq> [] \<and> last (out w1) = Input prompt_index (Some l)"
    by (auto simp: input_def split: list.splits)
  with main_psk_loop_returns [OF loop] show ?thesis by auto
qed

lemma py_lower_n: "py_lower l = ''n'' \<longleftrightarrow> l = ''n'' \<or> l = ''N''"
proof
  assume "py_lower l = ''n''"
  then obtain c where l: "l = [c]"
    and c: "(case map_of (zip ''ABCDEFGHIJKLMNOPQRSTUVWXYZ'' ''abcdefghijklmnopqrstuvwxyz'') c of
                None \<Rightarrow> c
              | Some d \<Rightarrow> d) = CHR ''n''"
    by (auto simp: py_lower_def)
  from c have "c = CHR ''n'' \<or> c = CHR ''N''"
    by (simp split: if_splits)
  with l show "l = ''n'' \<or> l = ''N''" by auto
next
  assume "l = ''n'' \<or> l = ''N''"
  then show "py_lower l = ''n''" by (auto simp: py_lower_def)
qed

text \<open>
  C6. At a prompt of the rotation loop, the answer \<open>n\<close> or \<open>N\<close> (and no other) ends the
  loop: such an answer makes the loop return at once, and whenever the loop returns, the
  last thing that happened is a prompt answered by \<open>n\<close> or \<open>N\<close>. Any other answer that
  \<open>int\<close> parses to an index selecting an entry of the listing makes the program ask for
  a password, submit one update with \<open>authMode = "psk"\<close> and \<open>psk\<close> set to the line
  entered, on the entry's SSID number in the entry's network, print the report of
  success or failure, and stand at the prompt again.
\<close>

theorem psk_rotation_loop:
  "(stdin w = l # rest \<and> (l = ''n'' \<or> l = ''N'') \<longrightarrow>
      main_psk dashboard py_int net_id_to_name psk_ssids w =
        (Inr (), w\<lparr>stdin := rest, out := out w @ [Input prompt_index (Some l)]\<rparr>))
   \<and> (\<forall>w'. main_psk dashboard py_int net_id_to_name psk_ssids w = (Inr (), w') \<longrightarrow>
         (\<exists>a. out w' \<noteq> [] \<and> last (out w') = Input prompt_index (Some a) \<and>
              (a = ''n'' \<or> a = ''N'')))
   \<and> (stdin w = l # new_psk # rest \<and> l \<noteq> ''n'' \<and> l \<noteq> ''N'' \<and>
       py_int l = Some i \<and> py_nth psk_ssids i = Inr entry \<and>
       map_of entry ''number'' = Some ssid_num \<and>
       map_of entry ''name'' = Some ssid_name \<and>
       map_of entry ''net_id'' = Some net_id \<and>
       map_of net_id_to_name net_id = Some net_name \<and>
       dashboard (UpdateNetworkWirelessSsid net_id ssid_num
          [(''authMode'', PStr ''psk''), (''psk'', PStr new_psk)]) (cloud w) = (r, d') \<longrightarrow>
       main_psk dashboard py_int net_id_to_name psk_ssids w =
         main_psk dashboard py_int net_id_to_name psk_ssids
           (w\<lparr>cloud := d', stdin := rest,
              out := out w @
                Input prompt_index (Some l) #
                Input prompt_psk (Some new_psk) #
                Call (UpdateNetworkWirelessSsid net_id ssid_num
                        [(''authMode'', PStr ''psk''), (''psk'', PStr new_psk)]) r #
                psk_report ssid_name net_name r\<rparr>))"
proof (intro conjI impI allI)
  assume "stdin w = l # rest \<and> (l = ''n'' \<or> l = ''N'')"
  then show "main_psk dashboard py_int net_id_to_name psk_ssids w =
        (Inr (), w\<lparr>stdin := rest, out := out w @ [Input prompt_index (Some l)]\<rparr>)"
    by (intro main_psk_stop) (simp_all add: py_lower_n)
next
  fix w'
  assume "main_psk dashboard py_int net_id_to_name psk_ssids w = (Inr (), w')"
  from main_psk_returns [OF this]
  show "\<exists>a. out w' \<noteq> [] \<and> last (out w') = Input prompt_index (Some a) \<and> (a = ''n'' \<or> a = ''N'')"
    by (simp add: py_lower_n)
next
  assume a: "stdin w = l # new_psk # rest \<and> l \<noteq> ''n'' \<and> l \<noteq> ''N'' \<and>
       py_int l = Some i \<and> py_nth psk_ssids i = Inr entry \<and>
       map_of entry ''number'' = Some ssid_num \<and>
       map_of entry ''name'' = Some ssid_name \<and>
       map_of entry ''net_id'' = Some net_id \<and>
       map_of net_id_to_name net_id = Some net_name \<and>
       dashboard (UpdateNetworkWirelessSsid net_id ssid_num
          [(''authMode'', PStr ''psk''), (''psk'', PStr new_psk)]) (cloud w) = (r, d')"
  then have "py_lower l \<noteq> ''n''" by (simp add: py_lower_n)
  with a show "main_psk dashboard py_int net_id_to_name psk_ssids w =
         main_psk dashboard py_int net_id_to_name psk_ssids
           (w\<lparr>cloud := d', stdin := rest,
              out := out w @
                Input prompt_index (Some l) #
                Input prompt_psk (Some new_psk) #
                Call (UpdateNetworkWirelessSsid net_id ssid_num
                        [(''authMode'', PStr ''psk''), (''psk'', PStr new_psk)]) r #
                psk_report ssid_name net_name r\<rparr>)"
    by (intro main_psk_step [where dashboard = dashboard and py_int = py_int and i = i
          and entry = entry]) simp_all
qed

theorem psk_rotation_loop_witness:
  "main_psk demo_dashboard decimal_int [(PStr ''N_1'', ''Branch-A'')]
     [[(''name'', PStr ''Guest''), (''number'', PInt 0), (''net_id'', PStr ''N_1'')],
      [(''name'', PStr ''Staff''), (''number'', PInt 1), (''net_id'', PStr ''N_1'')]]
     (demo_world [''1'', ''newpass123'', ''N'']) =
   (Inr (),
    \<lparr>cloud = 1, stdin = [],
     out = [Input prompt_index (Some ''1''),
            Input prompt_psk (Some ''newpass123''),
            Call (UpdateNetworkWirelessSsid (PStr ''N_1'') (PInt 1)
                    [(''authMode'', PStr ''psk''), (''psk'', PStr ''newpass123'')]) (Inr []),
            Print [Val (PStr ''Staff''), Lit '' of network '', Val (PStr ''Branch-A''),
                   Lit '' configured with a new psk''],
            Input prompt_index (Some ''N'')]\<rparr>)"
proof -
  let ?psk = "[[(''name'', PStr ''Guest''), (''number'', PInt 0), (''net_id'', PStr ''N_1'')],
      [(''name'', PStr ''Staff''), (''number'', PInt 1), (''net_id'', PStr ''N_1'')]]"
  let ?w2 = "\<lparr>cloud = 1, stdin = [''N''],
     out = [Input prompt_index (Some ''1''),
            Input prompt_psk (Some ''newpass123''),
            Call (UpdateNetworkWirelessSsid (PStr ''N_1'') (PInt 1)
                    [(''authMode'', PStr ''psk''), (''psk'', PStr ''newpass123'')]) (Inr []),
            Print [Val (PStr ''Staff''), Lit '' of network '', Val (PStr ''Branch-A''),
                   Lit '' configured with a new psk'']]\<rparr> :: nat world"
  have step: "main_psk demo_dashboard decimal_int [(PStr ''N_1'', ''Branch-A'')] ?psk
                (demo_world [''1'', ''newpass123'', ''N'']) =
              main_psk demo_dashboard decimal_int [(PStr ''N_1'', ''Branch-A'')] ?psk ?w2"
    using psk_rotation_loop
      [where dashboard = demo_dashboard and py_int = decimal_int
         and net_id_to_name = "[(PStr ''N_1'', ''Branch-A'')]" and psk_ssids = ?psk
         and w = "demo_world [''1'', ''newpass123'', ''N'']" and l = "''1''"
         and new_psk = "''newpass123''" and rest = "[''N'']" and i = 1
         and entry = "[(''name'', PStr ''Staff''), (''number'', PInt 1), (''net_id'', PStr ''N_1'')]"
         and ssid_num = "PInt 1" and ssid_name = "PStr ''Staff''" and net_id = "PStr ''N_1''"
         and net_name = "''Branch-A''" and r = "Inr []" and d' = 1]
    by (simp add: demo_world_def py_nth_def)
  have stop: "main_psk demo_dashboard decimal_int [(PStr ''N_1'', ''Branch-A'')] ?psk ?w2 =
      (Inr (), ?w2\<lparr>stdin := [], out := out ?w2 @ [Input prompt_index (Some ''N'')]\<rparr>)"
    using psk_rotation_loop
      [where dashboard = demo_dashboard and py_int = decimal_int
         and net_id_to_name = "[(PStr ''N_1'', ''Branch-A'')]" and psk_ssids = ?psk
         and w = ?w2 and l = "''N''" and rest = "[]"]
    by simp
  show ?thesis
    unfolding step stop by simp
qed

subsection \<open>The whole run\<close>

lemma main_run:
  "main renders dashboard py_int ORG_ID NET_NAMES w =
     (case main_resolve renders dashboard ORG_ID NET_NAMES []
             (w\<lparr>out := out w @ [Panel [Lit ''Meraki AP SSID Configuration''] [],
                                Panel [Lit ''Connect to Meraki dashboard''] ''Step 1'']\<rparr>) of
        (Inl e, w1) \<Rightarrow> (Inl e, w1)
      | (Inr None, w1) \<Rightarrow> (Inr (), w1)
      | (Inr (Some net_id_to_name), w1) \<Rightarrow>
          (case main_batch renders dashboard ORG_ID net_id_to_name w1 of
             (Inl e, w2) \<Rightarrow> (Inl e, w2)
           | (Inr psk_ssids, w2) \<Rightarrow> main_psk dashboard py_int net_id_to_name psk_ssids w2))"
  by (simp add: main_def main_steps_def bnd_def emit_def ret_def
      split: prod.splits sum.splits option.splits)

lemmas run_defs =
  bnd_def lift_def emit_def ret_def raise_def console_print_def call_def input_def
  try_except_def getitem_def getkey_def set_add_def
  get_network_id_def get_wireless_networks_def get_all_ssids_def get_all_ssids_body_def
  make_ssid_dict_def get_ap_ssids_def get_ap_ssids_body_def configure_net_ssids_def
  get_psk_net_ssids_def change_ssid_psk_def main_match_def main_configure_ssid_def
  main_configure_net_def main_configure_def main_psk_list_def main_psk_print_line_def
  main_psk_print_def main_batch_def

lemmas demo_defs =
  demo_networks_def demo_guest_def demo_staff_def demo_spare_def demo_guest_b_def demo_ap_def
  demo_world_def demo_renders_def

text \<open>
  C10. Once resolution and the batch steps have succeeded, the result of the run is the
  result of the rotation loop. At any prompt of that loop, an answer other than \<open>n\<close> or
  \<open>N\<close> that \<open>int\<close> rejects raises ValueError, and one that \<open>int\<close> parses to an index out
  of the list's range (at or beyond its length, or below minus its length, as Python
  indexes lists) raises IndexError. Nothing in the loop catches either: the exception
  is the result of the loop, hence of the run.
\<close>

theorem malformed_input_propagates:
  assumes "main_resolve renders dashboard ORG_ID NET_NAMES []
             (w\<lparr>out := out w @ [Panel [Lit ''Meraki AP SSID Configuration''] [],
                                Panel [Lit ''Connect to Meraki dashboard''] ''Step 1'']\<rparr>) =
           (Inr (Some net_id_to_name), w1)"
      and "main_batch renders dashboard ORG_ID net_id_to_name w1 = (Inr psk_ssids, w2)"
  shows "main renders dashboard py_int ORG_ID NET_NAMES w =
           main_psk dashboard py_int net_id_to_name psk_ssids w2
     \<and> (\<forall>w3 l rest. stdin w3 = l # rest \<and> l \<noteq> ''n'' \<and> l \<noteq> ''N'' \<and> py_int l = None \<longrightarrow>
           main_psk dashboard py_int net_id_to_name psk_ssids w3 =
             (Inl (ValueError l),
              w3\<lparr>stdin := rest, out := out w3 @ [Input prompt_index (Some l)]\<rparr>))
     \<and> (\<forall>w3 l rest i. stdin w3 = l # rest \<and> l \<noteq> ''n'' \<and> l \<noteq> ''N'' \<and> py_int l = Some i \<and>
           (i < - int (length psk_ssids) \<or> int (length psk_ssids) \<le> i) \<longrightarrow>
           main_psk dashboard py_int net_id_to_name psk_ssids w3 =
             (Inl IndexError,
              w3\<lparr>stdin := rest, out := out w3 @ [Input prompt_index (Some l)]\<rparr>))"
proof (intro conjI allI impI)
  show "main renders dashboard py_int ORG_ID NET_NAMES w =
           main_psk dashboard py_int net_id_to_name psk_ssids w2"
    using assms by (simp add: main_run)
next
  fix w3 :: "'a world" and l rest
  assume "stdin w3 = l # rest \<and> l \<noteq> ''n'' \<and> l \<noteq> ''N'' \<and> py_int l = None"
  then show "main_psk dashboard py_int net_id_to_name psk_ssids w3 =
             (Inl (ValueError l),
              w3\<lparr>stdin := rest, out := out w3 @ [Input prompt_index (Some l)]\<rparr>)"
    by (intro main_psk_value_error) (simp_all add: py_lower_n)
next
  fix w3 :: "'a world" and l rest i
  assume "stdin w3 = l # rest \<and> l \<noteq> ''n'' \<and> l \<noteq> ''N'' \<and> py_int l = Some i \<and>
           (i < - int (length psk_ssids) \<or> int (length psk_ssids) \<le> i)"
  then show "main_psk dashboard py_int net_id_to_name psk_ssids w3 =
             (Inl IndexError,
              w3\<lparr>stdin := rest, out := out w3 @ [Input prompt_index (Some l)]\<rparr>)"
    by (intro main_psk_index_error [where i = i]) (simp_all add: py_lower_n)
qed

theorem malformed_input_propagates_witness:
  "fst (main demo_renders demo_dashboard decimal_int ''org'' [''Branch-A''] (demo_world [''two''])) =
     Inl (ValueError ''two'')
   \<and> fst (main demo_renders demo_dashboard decimal_int ''org'' [''Branch-A''] (demo_world [''2''])) =
     Inl IndexError"
proof -
  let ?tbl = "[(PStr ''N_1'', ''Branch-A'')]"
  let ?psk = "[[(''name'', PStr ''Guest''), (''number'', PInt 0), (''net_id'', PStr ''N_1'')],
      [(''name'', PStr ''Staff''), (''number'', PInt 1), (''net_id'', PStr ''N_1'')]]"
  have run: "main demo_renders demo_dashboard decimal_int ''org'' [''Branch-A''] (demo_world [l]) =
               main_psk demo_dashboard decimal_int ?tbl ?psk w2
             \<and> stdin w2 = [l]
             \<and> (l \<noteq> ''n'' \<and> l \<noteq> ''N'' \<and> decimal_int l = None \<longrightarrow>
                  fst (main_psk demo_dashboard decimal_int ?tbl ?psk w2) = Inl (ValueError l))
             \<and> (l \<noteq> ''n'' \<and> l \<noteq> ''N'' \<and> decimal_int l = Some 2 \<longrightarrow>
                  fst (main_psk demo_dashboard decimal_int ?tbl ?psk w2) = Inl IndexError)"
    if w2: "w2 = snd (main_batch demo_renders demo_dashboard ''org'' ?tbl
                   (snd (main_resolve demo_renders demo_dashboard ''org'' [''Branch-A''] []
                      ((demo_world [l])\<lparr>out := out (demo_world [l]) @
                          [Panel [Lit ''Meraki AP SSID Configuration''] [],
                           Panel [Lit ''Connect to Meraki dashboard''] ''Step 1'']\<rparr>))))"
    for l w2
  proof -
    define w0 where "w0 = (demo_world [l])\<lparr>out := out (demo_world [l]) @
                    [Panel [Lit ''Meraki AP SSID Configuration''] [],
                     Panel [Lit ''Connect to Meraki dashboard''] ''Step 1'']\<rparr>"
    define w1 where "w1 = snd (main_resolve demo_renders demo_dashboard ''org'' [''Branch-A''] [] w0)"
    have w2': "w2 = snd (main_batch demo_renders demo_dashboard ''org'' ?tbl w1)"
      by (simp only: w2 w1_def w0_def)
    have h1: "main_resolve demo_renders demo_dashboard ''org'' [''Branch-A''] [] w0 = (Inr (Some ?tbl), w1)"
      by (simp add: w1_def w0_def prod_eq_iff run_defs demo_defs)
    have c1: "cloud w1 = 0" "stdin w1 = [l]"
      by (simp_all add: w1_def w0_def run_defs demo_defs)
    have h2: "main_batch demo_renders demo_dashboard ''org'' ?tbl w1 = (Inr ?psk, w2)"
      by (simp add: w2' prod_eq_iff run_defs demo_defs c1 Let_def)
    have c2: "stdin w2 = [l]"
      by (simp add: w2' run_defs demo_defs c1 Let_def)
    note inst = malformed_input_propagates
      [where dashboard = demo_dashboard and py_int = decimal_int and w = "demo_world [l]",
         OF h1 [unfolded w0_def] h2]
    have m: "main demo_renders demo_dashboard decimal_int ''org'' [''Branch-A''] (demo_world [l]) =
               main_psk demo_dashboard decimal_int ?tbl ?psk w2"
      using inst by (rule conjunct1)
    have ve: "fst (main_psk demo_dashboard decimal_int ?tbl ?psk w2) = Inl (ValueError l)"
      if "l \<noteq> ''n'' \<and> l \<noteq> ''N'' \<and> decimal_int l = None"
      using inst [THEN conjunct2, THEN conjunct1, rule_format, of w2 l "[]"] that c2 by simp
    have ie: "fst (main_psk demo_dashboard decimal_int ?tbl ?psk w2) = Inl IndexError"
      if "l \<noteq> ''n'' \<and> l \<noteq> ''N'' \<and> decimal_int l = Some 2"
      using inst [THEN conjunct2, THEN conjunct2, rule_format, of w2 l "[]" 2] that c2 by simp
    show ?thesis using m c2 ve ie by blast
  qed
  have a: "fst (main demo_renders demo_dashboard decimal_int ''org'' [''Branch-A''] (demo_world [''two''])) =
     Inl (ValueError ''two'')"
    using run [OF refl, of "''two''"] by simp
  have b: "fst (main demo_renders demo_dashboard decimal_int ''org'' [''Branch-A''] (demo_world [''2''])) =
     Inl IndexError"
    using run [OF refl, of "''2''"] by simp
  show ?thesis using a b by (rule conjI)
qed

subsection \<open>Failures of the update call\<close>

lemma main_configure_ssid_run:
  assumes "map_of ssid_dict ssid_name = Some ssid"
      and "map_of ssid ''name'' = Some n"
      and "map_of net_id_to_name net_id = Some net_name"
      and "dashboard (UpdateNetworkWirelessSsid net_id (PInt 3) (AList.delete ''number'' ssid))
             (cloud w) = (r, d')"
  shows "main_configure_ssid dashboard net_id_to_name net_id ssid_name ssid_dict w =
     (Inr (AList.update ssid_name (AList.delete ''number'' ssid) ssid_dict),
      w\<lparr>cloud := d',
        out := out w @
          Call (UpdateNetworkWirelessSsid net_id (PInt 3) (AList.delete ''number'' ssid)) r #
          (case r of
             Inr response \<Rightarrow>
               [Print [Val (PStr net_name), Lit '' configured with ssid '', Val ssid_name]]
           | Inl msg \<Rightarrow>
               [Print [Lit ''There was an issue configuring the SSID '', Val n,
                       Lit '' for the following reason:''],
                Print [Exc (APIError msg)],
                Print [Lit ''There was an issue configuring ssid '', Val ssid_name,
                       Lit '' on '', Val (PStr net_name)]])\<rparr>)"
  using assms
  by (cases r)
     (simp_all add: main_configure_ssid_def getkey_def bnd_lift_Inr bnd_def
        configure_net_ssids_run [where dashboard = dashboard and w = w and r = r and d' = d']
        lift_def emit_def ret_def)

text \<open>
  C3, as amended. When the update call raises while an SSID configuration is applied,
  the configurator catches the exception, prints the SSID's name and then the
  exception's text, and returns \<open>False\<close>; \<open>main\<close> prints its own report and goes on with
  the next SSID name. When the update call raises during a PSK update,
  \<open>change_ssid_psk\<close> catches the exception, prints a fixed line, which does not name the
  SSID, and then the exception's text, and returns \<open>False\<close>; the SSID's name comes with
  the report \<open>main\<close> prints next, after which \<open>main\<close> stands at the prompt again. (The
  records configured come from the catalog, which keys each record by the name it
  carries.)
\<close>

theorem update_failure_is_reported_and_skipped:
  "(map_of ssid_dict ssid_name = Some ssid \<and> map_of ssid ''name'' = Some n \<and>
    map_of net_id_to_name net_id = Some net_name \<and>
    dashboard (UpdateNetworkWirelessSsid net_id (PInt 3) (AList.delete ''number'' ssid))
      (cloud w) = (Inl msg, d') \<longrightarrow>
      configure_net_ssids dashboard net_id ssid w =
        (Inr (False, AList.delete ''number'' ssid),
         w\<lparr>cloud := d',
           out := out w @
             [Call (UpdateNetworkWirelessSsid net_id (PInt 3) (AList.delete ''number'' ssid))
                (Inl msg),
              Print [Lit ''There was an issue configuring the SSID '', Val n,
                     Lit '' for the following reason:''],
              Print [Exc (APIError msg)]]\<rparr>)
      \<and> for_loop (main_configure_ssid dashboard net_id_to_name net_id)
            (ssid_name # ssid_names) ssid_dict w =
          for_loop (main_configure_ssid dashboard net_id_to_name net_id) ssid_names
            (AList.update ssid_name (AList.delete ''number'' ssid) ssid_dict)
            (w\<lparr>cloud := d',
               out := out w @
                 [Call (UpdateNetworkWirelessSsid net_id (PInt 3) (AList.delete ''number'' ssid))
                    (Inl msg),
                  Print [Lit ''There was an issue configuring the SSID '', Val n,
                         Lit '' for the following reason:''],
                  Print [Exc (APIError msg)],
                  Print [Lit ''There was an issue configuring ssid '', Val ssid_name,
                         Lit '' on '', Val (PStr net_name)]]\<rparr>))
   \<and> (dashboard (UpdateNetworkWirelessSsid psk_net_id ssid_num
          [(''authMode'', PStr ''psk''), (''psk'', PStr new_psk)]) (cloud v) = (Inl msg, d') \<longrightarrow>
       change_ssid_psk dashboard psk_net_id ssid_num new_psk v =
         (Inr False,
          v\<lparr>cloud := d',
            out := out v @
              [Call (UpdateNetworkWirelessSsid psk_net_id ssid_num
                       [(''authMode'', PStr ''psk''), (''psk'', PStr new_psk)]) (Inl msg),
               Print [Lit ''There was an issue assigning a new password to the SSID for the following reason:''],
               Print [Exc (APIError msg)]]\<rparr>))
   \<and> (stdin v = l # new_psk # rest \<and> l \<noteq> ''n'' \<and> l \<noteq> ''N'' \<and>
       py_int l = Some i \<and> py_nth psk_ssids i = Inr entry \<and>
       map_of entry ''number'' = Some ssid_num \<and>
       map_of entry ''name'' = Some psk_name \<and>
       map_of entry ''net_id'' = Some psk_net_id \<and>
       map_of net_id_to_name psk_net_id = Some psk_net_name \<and>
       dashboard (UpdateNetworkWirelessSsid psk_net_id ssid_num
          [(''authMode'', PStr ''psk''), (''psk'', PStr new_psk)]) (cloud v) = (Inl msg, d') \<longrightarrow>
       main_psk dashboard py_int net_id_to_name psk_ssids v =
         main_psk dashboard py_int net_id_to_name psk_ssids
           (v\<lparr>cloud := d', stdin := rest,
              out := out v @
                [Input prompt_index (Some l),
                 Input prompt_psk (Some new_psk),
                 Call (UpdateNetworkWirelessSsid psk_net_id ssid_num
                         [(''authMode'', PStr ''psk''), (''psk'', PStr new_psk)]) (Inl msg),
                 Print [Lit ''There was an issue assigning a new password to the SSID for the following reason:''],
                 Print [Exc (APIError msg)],
                 Print [Lit ''There was an issue configuring a new psk for '', Val psk_name,
                        Lit '' of network '', Val (PStr psk_net_name)]]\<rparr>))"
proof (intro conjI impI)
  assume a: "map_of ssid_dict ssid_name = Some ssid \<and> map_of ssid ''name'' = Some n \<and>
    map_of net_id_to_name net_id = Some net_name \<and>
    dashboard (UpdateNetworkWirelessSsid net_id (PInt 3) (AList.delete ''number'' ssid))
      (cloud w) = (Inl msg, d')"
  then show "configure_net_ssids dashboard net_id ssid w =
        (Inr (False, AList.delete ''number'' ssid),
         w\<lparr>cloud := d',
           out := out w @
             [Call (UpdateNetworkWirelessSsid net_id (PInt 3) (AList.delete ''number'' ssid))
                (Inl msg),
              Print [Lit ''There was an issue configuring the SSID '', Val n,
                     Lit '' for the following reason:''],
              Print [Exc (APIError msg)]]\<rparr>)"
    by (simp add: configure_net_ssids_run
          [where dashboard = dashboard and w = w and r = "Inl msg" and d' = d'])
  from a show "for_loop (main_configure_ssid dashboard net_id_to_name net_id)
            (ssid_name # ssid_names) ssid_dict w =
          for_loop (main_configure_ssid dashboard net_id_to_name net_id) ssid_names
            (AList.update ssid_name (AList.delete ''number'' ssid) ssid_dict)
            (w\<lparr>cloud := d',
               out := out w @
                 [Call (UpdateNetworkWirelessSsid net_id (PInt 3) (AList.delete ''number'' ssid))
                    (Inl msg),
                  Print [Lit ''There was an issue configuring the SSID '', Val n,
                         Lit '' for the following reason:''],
                  Print [Exc (APIError msg)],
                  Print [Lit ''There was an issue configuring ssid '', Val ssid_name,
                         Lit '' on '', Val (PStr net_name)]]\<rparr>)"
    by (simp add: main_configure_ssid_run
          [where dashboard = dashboard and w = w and r = "Inl msg" and d' = d'
             and ssid = ssid and n = n and net_name = net_name])
next
  assume "dashboard (UpdateNetworkWirelessSsid psk_net_id ssid_num
          [(''authMode'', PStr ''psk''), (''psk'', PStr new_psk)]) (cloud v) = (Inl msg, d')"
  then show "change_ssid_psk dashboard psk_net_id ssid_num new_psk v =
         (Inr False,
          v\<lparr>cloud := d',
            out := out v @
              [Call (UpdateNetworkWirelessSsid psk_net_id ssid_num
                       [(''authMode'', PStr ''psk''), (''psk'', PStr new_psk)]) (Inl msg),
               Print [Lit ''There was an issue assigning a new password to the SSID for the following reason:''],
               Print [Exc (APIError msg)]]\<rparr>)"
    by (simp add: change_ssid_psk_run
          [where dashboard = dashboard and w = v and r = "Inl msg" and d' = d'])
next
  assume a: "stdin v = l # new_psk # rest \<and> l \<noteq> ''n'' \<and> l \<noteq> ''N'' \<and>
       py_int l = Some i \<and> py_nth psk_ssids i = Inr entry \<and>
       map_of entry ''number'' = Some ssid_num \<and>
       map_of entry ''name'' = Some psk_name \<and>
       map_of entry ''net_id'' = Some psk_net_id \<and>
       map_of net_id_to_name psk_net_id = Some psk_net_name \<and>
       dashboard (UpdateNetworkWirelessSsid psk_net_id ssid_num
          [(''authMode'', PStr ''psk''), (''psk'', PStr new_psk)]) (cloud v) = (Inl msg, d')"
  then have "py_lower l \<noteq> ''n''" by (simp add: py_lower_n)
  with a have "main_psk dashboard py_int net_id_to_name psk_ssids v =
         main_psk dashboard py_int net_id_to_name psk_ssids
           (v\<lparr>cloud := d', stdin := rest,
              out := out v @
                Input prompt_index (Some l) #
                Input prompt_psk (Some new_psk) #
                Call (UpdateNetworkWirelessSsid psk_net_id ssid_num
                        [(''authMode'', PStr ''psk''), (''psk'', PStr new_psk)]) (Inl msg) #
                psk_report psk_name psk_net_name (Inl msg)\<rparr>)"
    by (intro main_psk_step [where dashboard = dashboard and py_int = py_int and i = i
          and entry = entry]) simp_all
  then show "main_psk dashboard py_int net_id_to_name psk_ssids v =
         main_psk dashboard py_int net_id_to_name psk_ssids
           (v\<lparr>cloud := d', stdin := rest,
              out := out v @
                [Input prompt_index (Some l),
                 Input prompt_psk (Some new_psk),
                 Call (UpdateNetworkWirelessSsid psk_net_id ssid_num
                         [(''authMode'', PStr ''psk''), (''psk'', PStr new_psk)]) (Inl msg),
                 Print [Lit ''There was an issue assigning a new password to the SSID for the following reason:''],
                 Print [Exc (APIError msg)],
                 Print [Lit ''There was an issue configuring a new psk for '', Val psk_name,
                        Lit '' of network '', Val (PStr psk_net_name)]]\<rparr>)"
    by simp
qed

theorem update_failure_is_reported_and_skipped_witness:
  "for_loop (main_configure_ssid demo_dashboard [(PStr ''N_2'', ''Branch-B'')] (PStr ''N_2''))
     [PStr ''Guest'', PStr ''Staff'']
     [(PStr ''Guest'', demo_guest_b), (PStr ''Staff'', demo_staff)] (demo_world []) =
   (Inr [(PStr ''Guest'', AList.delete ''number'' demo_guest_b),
         (PStr ''Staff'', AList.delete ''number'' demo_staff)],
    \<lparr>cloud = 0, stdin = [],
     out = [Call (UpdateNetworkWirelessSsid (PStr ''N_2'') (PInt 3)
                    (AList.delete ''number'' demo_guest_b)) (Inl ''400 Bad Request''),
            Print [Lit ''There was an issue configuring the SSID '', Val (PStr ''Guest''),
                   Lit '' for the following reason:''],
            Print [Exc (APIError ''400 Bad Request'')],
            Print [Lit ''There was an issue configuring ssid '', Val (PStr ''Guest''),
                   Lit '' on '', Val (PStr ''Branch-B'')],
            Call (UpdateNetworkWirelessSsid (PStr ''N_2'') (PInt 3)
                    (AList.delete ''number'' demo_staff)) (Inl ''400 Bad Request''),
            Print [Lit ''There was an issue configuring the SSID '', Val (PStr ''Staff''),
                   Lit '' for the following reason:''],
            Print [Exc (APIError ''400 Bad Request'')],
            Print [Lit ''There was an issue configuring ssid '', Val (PStr ''Staff''),
                   Lit '' on '', Val (PStr ''Branch-B'')]]\<rparr>)
   \<and> main_psk demo_dashboard decimal_int [(PStr ''N_2'', ''Branch-B'')]
       [[(''name'', PStr ''Guest''), (''number'', PInt 5), (''net_id'', PStr ''N_2'')]]
       (demo_world [''0'', ''hunter2'', ''n'']) =
     (Inr (),
      \<lparr>cloud = 0, stdin = [],
       out = [Input prompt_index (Some ''0''),
              Input prompt_psk (Some ''hunter2''),
              Call (UpdateNetworkWirelessSsid (PStr ''N_2'') (PInt 5)
                      [(''authMode'', PStr ''psk''), (''psk'', PStr ''hunter2'')])
                (Inl ''400 Bad Request''),
              Print [Lit ''There was an issue assigning a new password to the SSID for the following reason:''],
              Print [Exc (APIError ''400 Bad Request'')],
              Print [Lit ''There was an issue configuring a new psk for '', Val (PStr ''Guest''),
                     Lit '' of network '', Val (PStr ''Branch-B'')],
              Input prompt_index (Some ''n'')]\<rparr>)"
proof -
  let ?tbl = "[(PStr ''N_2'', ''Branch-B'')]"
  let ?psk = "[[(''name'', PStr ''Guest''), (''number'', PInt 5), (''net_id'', PStr ''N_2'')]]"
  note inst1 = update_failure_is_reported_and_skipped
      [where dashboard = demo_dashboard and net_id_to_name = ?tbl and net_id = "PStr ''N_2''"
         and ssid_dict = "[(PStr ''Guest'', demo_guest_b), (PStr ''Staff'', demo_staff)]"
         and ssid_name = "PStr ''Guest''" and ssid = demo_guest_b and n = "PStr ''Guest''"
         and net_name = "''Branch-B''" and w = "demo_world []" and msg = "''400 Bad Request''"
         and d' = 0 and ssid_names = "[PStr ''Staff'']"
         and py_int = decimal_int and psk_ssids = ?psk
         and v = "demo_world [''0'', ''hunter2'', ''n'']" and l = "''0''"
         and new_psk = "''hunter2''" and rest = "[''n'']" and i = 0
         and entry = "[(''name'', PStr ''Guest''), (''number'', PInt 5), (''net_id'', PStr ''N_2'')]"
         and ssid_num = "PInt 5" and psk_name = "PStr ''Guest''" and psk_net_id = "PStr ''N_2''"
         and psk_net_name = "''Branch-B''"]
  have a: "for_loop (main_configure_ssid demo_dashboard ?tbl (PStr ''N_2''))
     [PStr ''Guest'', PStr ''Staff'']
     [(PStr ''Guest'', demo_guest_b), (PStr ''Staff'', demo_staff)] (demo_world []) =
     for_loop (main_configure_ssid demo_dashboard ?tbl (PStr ''N_2'')) [PStr ''Staff'']
       (AList.update (PStr ''Guest'') (AList.delete ''number'' demo_guest_b)
          [(PStr ''Guest'', demo_guest_b), (PStr ''Staff'', demo_staff)])
       ((demo_world [])\<lparr>cloud := 0,
          out := out (demo_world []) @
            [Call (UpdateNetworkWirelessSsid (PStr ''N_2'') (PInt 3)
                     (AList.delete ''number'' demo_guest_b)) (Inl ''400 Bad Request''),
             Print [Lit ''There was an issue configuring the SSID '', Val (PStr ''Guest''),
                    Lit '' for the following reason:''],
             Print [Exc (APIError ''400 Bad Request'')],
             Print [Lit ''There was an issue configuring ssid '', Val (PStr ''Guest''),
                    Lit '' on '', Val (PStr ''Branch-B'')]]\<rparr>)"
    using inst1 [THEN conjunct1] by (simp add: demo_guest_b_def demo_world_def)
  have b: "main_psk demo_dashboard decimal_int ?tbl ?psk (demo_world [''0'', ''hunter2'', ''n'']) =
      main_psk demo_dashboard decimal_int ?tbl ?psk
        ((demo_world [''0'', ''hunter2'', ''n''])\<lparr>cloud := 0, stdin := [''n''],
           out := out (demo_world [''0'', ''hunter2'', ''n'']) @
             [Input prompt_index (Some ''0''),
              Input prompt_psk (Some ''hunter2''),
              Call (UpdateNetworkWirelessSsid (PStr ''N_2'') (PInt 5)
                      [(''authMode'', PStr ''psk''), (''psk'', PStr ''hunter2'')])
                (Inl ''400 Bad Request''),
              Print [Lit ''There was an issue assigning a new password to the SSID for the following reason:''],
              Print [Exc (APIError ''400 Bad Request'')],
              Print [Lit ''There was an issue configuring a new psk for '', Val (PStr ''Guest''),
                     Lit '' of network '', Val (PStr ''Branch-B'')]]\<rparr>)"
    using inst1 [THEN conjunct2, THEN conjunct2] by (simp add: demo_world_def py_nth_def)
  show ?thesis
    unfolding a b
    by (simp add: run_defs demo_defs main_psk_def Let_def py_lower_n)
qed

text \<open>
  C3, as stated, has the handler of a PSK update log the SSID name. It does not: the
  function is not given the name. Here the update of the PSK of the SSID Guest, slot 5
  of Branch-B, is refused; the exception is caught and \<open>False\<close> returned, and nothing
  \<open>change_ssid_psk\<close> prints shows the name.
\<close>

theorem psk_handler_does_not_name_the_ssid:
  "map_of demo_guest_b ''name'' = Some (PStr ''Guest'')
   \<and> map_of demo_guest_b ''number'' = Some (PInt 5)
   \<and> change_ssid_psk demo_dashboard (PStr ''N_2'') (PInt 5) ''hunter2'' (demo_world []) =
       (Inr False,
        \<lparr>cloud = 0, stdin = [],
         out = [Call (UpdateNetworkWirelessSsid (PStr ''N_2'') (PInt 5)
                        [(''authMode'', PStr ''psk''), (''psk'', PStr ''hunter2'')])
                  (Inl ''400 Bad Request''),
                Print [Lit ''There was an issue assigning a new password to the SSID for the following reason:''],
                Print [Exc (APIError ''400 Bad Request'')]]\<rparr>)
   \<and> \<not> list_ex (event_shows ''Guest'')
         (out (snd (change_ssid_psk demo_dashboard (PStr ''N_2'') (PInt 5) ''hunter2''
                      (demo_world []))))"
  by (simp add: run_defs demo_defs sublist_Cons_right)

subsection \<open>Tag matching\<close>

lemma get_ap_ssids_inner_run:
  "get_ap_ssids_inner tag aps s =
     (if aps = [] then Inr s
      else if \<not> hashable tag then Inl TypeError
      else if tag \<in> set s then Inr s else Inr (s @ [tag]))"
proof (induction aps arbitrary: s)
  case Nil
  show ?case by simp
next
  case (Cons ap aps)
  show ?case
    by (auto simp: set_add_def Cons.IH)
qed

lemma get_ap_ssids_body_run:
  assumes "map_of ssid ''name'' = Some tag"
      and "dashboard (GetOrganizationDevices org_id net_id tag) (cloud w) = (r, d')"
      and "renders [Lit ''Retrieving all APs with the tag '', Val tag]"
  shows "get_ap_ssids_body renders dashboard org_id net_id ssid s w =
     ((case r of Inl msg \<Rightarrow> Inl (APIError msg) | Inr aps \<Rightarrow> get_ap_ssids_inner tag aps s),
      w\<lparr>cloud := d',
        out := out w @ [Print [Lit ''Retrieving all APs with the tag '', Val tag],
                        Call (GetOrganizationDevices org_id net_id tag) r]\<rparr>)"
  using assms
  by (cases r)
     (simp_all add: get_ap_ssids_body_def getitem_def bnd_def emit_def call_def lift_def
        console_print_def)

lemma get_ap_ssids_body_name:
  assumes "get_ap_ssids_body renders dashboard org_id net_id ssid s w = (Inr t, w1)"
  shows "\<exists>tag. map_of ssid ''name'' = Some tag \<and>
           renders [Lit ''Retrieving all APs with the tag '', Val tag]"
  using assms
  by (cases "map_of ssid ''name''")
     (simp_all add: get_ap_ssids_body_def getitem_def bnd_lift_Inl bnd_lift_Inr
        bnd_console_print split: if_splits)

lemma add_aps_monotone_loop:
  assumes "for_loop (get_ap_ssids_body renders dashboard org_id net_id) ssids s w = (Inr t, w1)"
      and "set s \<subseteq> set s'" and "set s' \<subseteq> insert x (set s)"
      and "cloud w' = cloud w" and "hashable x"
  shows "\<exists>t' w1'.
           for_loop (get_ap_ssids_body renders
                       (add_aps dashboard (GetOrganizationDevices org_id net_id x) extra)
                       org_id net_id) ssids s' w' = (Inr t', w1')
           \<and> set t \<subseteq> set t' \<and> set t' \<subseteq> insert x (set t) \<and> cloud w1' = cloud w1"
  using assms
proof (induction ssids arbitrary: s s' w w')
  case Nil
  then show ?case by auto
next
  case (Cons ssid ssids)
  let ?D' = "add_aps dashboard (GetOrganizationDevices org_id net_id x) extra"
  from Cons.prems(1) obtain s1 w2 where
    step: "get_ap_ssids_body renders dashboard org_id net_id ssid s w = (Inr s1, w2)"
    and rest: "for_loop (get_ap_ssids_body renders dashboard org_id net_id) ssids s1 w2 = (Inr t, w1)"
    by (auto split: prod.splits sum.splits)
  from get_ap_ssids_body_name [OF step] obtain tag where tag: "map_of ssid ''name'' = Some tag"
    and shown: "renders [Lit ''Retrieving all APs with the tag '', Val tag]"
    by blast
  obtain r d' where r: "dashboard (GetOrganizationDevices org_id net_id tag) (cloud w) = (r, d')"
    by (cases "dashboard (GetOrganizationDevices org_id net_id tag) (cloud w)")
  from step obtain aps where aps: "r = Inr aps" and s1: "get_ap_ssids_inner tag aps s = Inr s1"
    and w2: "w2 = w\<lparr>cloud := d',
        out := out w @ [Print [Lit ''Retrieving all APs with the tag '', Val tag],
                        Call (GetOrganizationDevices org_id net_id tag) r]\<rparr>"
    unfolding get_ap_ssids_body_run
      [where dashboard = dashboard and w = w and renders = renders, OF tag r shown]
    by (cases r) auto
  define aps' where "aps' = (if tag = x then aps @ extra else aps)"
  have r': "?D' (GetOrganizationDevices org_id net_id tag) (cloud w') = (Inr aps', d')"
    using r aps Cons.prems(4) by (auto simp: add_aps_def aps'_def)
  define w2' where "w2' = w'\<lparr>cloud := d',
        out := out w' @ [Print [Lit ''Retrieving all APs with the tag '', Val tag],
                         Call (GetOrganizationDevices org_id net_id tag) (Inr aps')]\<rparr>"
  have step': "get_ap_ssids_body renders ?D' org_id net_id ssid s' w' =
                 (get_ap_ssids_inner tag aps' s', w2')"
    unfolding get_ap_ssids_body_run
      [where dashboard = ?D' and w = w' and renders = renders, OF tag r' shown] w2'_def
    by simp
  have "\<exists>s1'. get_ap_ssids_inner tag aps' s' = Inr s1' \<and> set s1 \<subseteq> set s1' \<and>
              set s1' \<subseteq> insert x (set s1)"
    using s1 Cons.prems(2,3,5)
    by (auto simp: get_ap_ssids_inner_run aps'_def split: if_splits)
  then obtain s1' where s1': "get_ap_ssids_inner tag aps' s' = Inr s1'"
    and sub: "set s1 \<subseteq> set s1'" "set s1' \<subseteq> insert x (set s1)"
    by blast
  have cl: "cloud w2' = cloud w2" by (simp add: w2 w2'_def)
  from Cons.IH [OF rest sub cl Cons.prems(5)] obtain t' w1' where
    "for_loop (get_ap_ssids_body renders ?D' org_id net_id) ssids s1' w2' = (Inr t', w1')"
    "set t \<subseteq> set t'" "set t' \<subseteq> insert x (set t)" "cloud w1' = cloud w1"
    by blast
  then show ?case
    using step' s1' by auto
qed

text \<open>
  C9. Let the device query of a network for the tag \<open>x\<close> return more access points than
  before, everything else being equal. If tag matching succeeded before, it succeeds
  now; every name matched before is still matched, and the only name that can have
  been added is \<open>x\<close>. (\<open>x\<close> is an SSID name the program can put in a set: a string in
  every run of \<open>main\<close>.)
\<close>

theorem tag_matching_monotone:
  assumes "get_ap_ssids renders dashboard org_id net_id ssids w = (Inr matched, w1)"
      and "hashable x"
  shows "\<exists>matched' w1'.
           get_ap_ssids renders (add_aps dashboard (GetOrganizationDevices org_id net_id x) extra)
             org_id net_id ssids w = (Inr matched', w1')
           \<and> set matched \<subseteq> set matched' \<and> set matched' \<subseteq> insert x (set matched)"
  using add_aps_monotone_loop
    [where dashboard = dashboard and s = "[]" and s' = "[]" and w = w and w' = w
       and extra = extra, OF assms(1) [unfolded get_ap_ssids_def] _ _ _ assms(2)]
  unfolding get_ap_ssids_def by fastforce

theorem tag_matching_monotone_witness:
  "fst (get_ap_ssids demo_renders demo_dashboard ''org'' (PStr ''N_1'') [demo_guest, demo_staff] (demo_world [])) =
     Inr [PStr ''Guest'']
   \<and> fst (get_ap_ssids demo_renders
            (add_aps demo_dashboard (GetOrganizationDevices ''org'' (PStr ''N_1'') (PStr ''Staff''))
               [[(''serial'', PStr ''Q2XX-0002''), (''tags'', PList [PStr ''Staff''])]])
            ''org'' (PStr ''N_1'') [demo_guest, demo_staff] (demo_world [])) =
     Inr [PStr ''Guest'', PStr ''Staff'']"
proof -
  have h: "get_ap_ssids demo_renders demo_dashboard ''org'' (PStr ''N_1'') [demo_guest, demo_staff]
             (demo_world []) =
           (Inr [PStr ''Guest''],
            snd (get_ap_ssids demo_renders demo_dashboard ''org'' (PStr ''N_1'') [demo_guest, demo_staff]
                   (demo_world [])))"
    by (simp add: prod_eq_iff run_defs demo_defs)
  have hx: "hashable (PStr ''Staff'')" by simp
  from tag_matching_monotone [where dashboard = demo_dashboard, OF h hx,
      of "[[(''serial'', PStr ''Q2XX-0002''), (''tags'', PList [PStr ''Staff''])]]"]
  show ?thesis
    by (simp add: run_defs demo_defs add_aps_def)
qed

subsection \<open>The catalog\<close>

lemma ssid_listings_append: "ssid_listings (xs @ ys) = ssid_listings xs @ ssid_listings ys"
  by (induction xs rule: ssid_listings.induct) simp_all

lemma fetched_ssids_append: "fetched_ssids (xs @ ys) = fetched_ssids xs @ fetched_ssids ys"
  by (simp add: fetched_ssids_def ssid_listings_append)

lemma get_all_ssids_inner_run:
  "get_all_ssids_inner ssids acc = Inr r \<Longrightarrow>
   r = acc @ filter (\<lambda>s. \<exists>n. map_of s ''name'' = Some (PStr n) \<and> \<not> prefix ''Unconfigured'' n) ssids
   \<and> (\<forall>s \<in> set ssids. \<exists>n. map_of s ''name'' = Some (PStr n))"
proof (induction ssids arbitrary: acc)
  case Nil
  then show ?case by simp
next
  case (Cons ssid ssids)
  from Cons.prems obtain n where n: "map_of ssid ''name'' = Some (PStr n)"
    by (auto simp: getitem_def split: option.splits pyval.splits)
  with Cons.prems have
    "get_all_ssids_inner ssids
       (if \<not> prefix ''Unconfigured'' n then acc @ [ssid] else acc) = Inr r"
    by (simp add: getitem_def)
  from Cons.IH [OF this] n show ?case by auto
qed

lemma get_all_ssids_body_run:
  assumes "get_all_ssids_body renders dashboard net acc w = (Inr r, w')"
  shows "\<exists>nm i ssids d'.
           map_of net ''name'' = Some nm \<and> map_of net ''id'' = Some i \<and>
           dashboard (GetNetworkWirelessSsids i) (cloud w) = (Inr ssids, d') \<and>
           get_all_ssids_inner ssids acc = Inr r \<and>
           w' = w\<lparr>cloud := d',
                  out := out w @ [Print [Lit ''Retrieving SSIDs for the '', Val nm, Lit '' network''],
                                  Call (GetNetworkWirelessSsids i) (Inr ssids)]\<rparr>"
  using assms
  by (auto simp: get_all_ssids_body_def getitem_def bnd_def lift_def emit_def call_def
        console_print_def raise_def
      split: option.splits sum.splits prod.splits if_splits)

lemma get_all_ssids_loop_run:
  "for_loop (get_all_ssids_body renders dashboard) nets acc w = (Inr r, w') \<Longrightarrow>
   \<exists>evs. out w' = out w @ evs
     \<and> map (Some \<circ> fst) (ssid_listings evs) = map (\<lambda>net. map_of net ''id'') nets
     \<and> r = acc @ filter (\<lambda>s. \<exists>n. map_of s ''name'' = Some (PStr n) \<and> \<not> prefix ''Unconfigured'' n)
                    (fetched_ssids evs)
     \<and> (\<forall>s \<in> set (fetched_ssids evs). \<exists>n. map_of s ''name'' = Some (PStr n))"
proof (induction nets arbitrary: acc w)
  case Nil
  then show ?case by (simp add: fetched_ssids_def)
next
  case (Cons net nets)
  from Cons.prems obtain r1 w1 where
    step: "get_all_ssids_body renders dashboard net acc w = (Inr r1, w1)"
    and rest: "for_loop (get_all_ssids_body renders dashboard) nets r1 w1 = (Inr r, w')"
    by (auto split: prod.splits sum.splits)
  from get_all_ssids_body_run [OF step] obtain nm i ssids d' where
    i: "map_of net ''id'' = Some i"
    and inner: "get_all_ssids_inner ssids acc = Inr r1"
    and w1: "w1 = w\<lparr>cloud := d',
                  out := out w @ [Print [Lit ''Retrieving SSIDs for the '', Val nm, Lit '' network''],
                                  Call (GetNetworkWirelessSsids i) (Inr ssids)]\<rparr>"
    by blast
  from Cons.IH [OF rest] obtain evs where
    evs: "out w' = out w1 @ evs"
      "map (Some \<circ> fst) (ssid_listings evs) = map (\<lambda>net. map_of net ''id'') nets"
      "r = r1 @ filter (\<lambda>s. \<exists>n. map_of s ''name'' = Some (PStr n) \<and> \<not> prefix ''Unconfigured'' n)
                    (fetched_ssids evs)"
      "\<forall>s \<in> set (fetched_ssids evs). \<exists>n. map_of s ''name'' = Some (PStr n)"
    by blast
  let ?evs = "[Print [Lit ''Retrieving SSIDs for the '', Val nm, Lit '' network''],
               Call (GetNetworkWirelessSsids i) (Inr ssids)] @ evs"
  have f: "fetched_ssids ?evs = ssids @ fetched_ssids evs"
    by (simp add: fetched_ssids_def)
  have "out w' = out w @ ?evs" using evs(1) w1 by simp
  moreover have "map (Some \<circ> fst) (ssid_listings ?evs) = map (\<lambda>net. map_of net ''id'') (net # nets)"
    using evs(2) i by simp
  moreover have "r = acc @ filter (\<lambda>s. \<exists>n. map_of s ''name'' = Some (PStr n) \<and> \<not> prefix ''Unconfigured'' n)
                    (fetched_ssids ?evs)"
    using evs(3) get_all_ssids_inner_run [OF inner] unfolding f by simp
  moreover have "\<forall>s \<in> set (fetched_ssids ?evs). \<exists>n. map_of s ''name'' = Some (PStr n)"
    using evs(4) get_all_ssids_inner_run [OF inner] unfolding f by auto
  ultimately show ?case by blast
qed

text \<open>The catalog built from records that all carry a hashable name.\<close>

lemma make_ssid_dict_loop_run:
  assumes "\<forall>s \<in> set ssids. \<exists>k. map_of s ''name'' = Some k \<and> hashable k"
  shows "\<exists>d'. make_ssid_dict_loop ssids d = Inr d'
     \<and> (distinct (map fst d) \<longrightarrow> distinct (map fst d'))
     \<and> fst ` set d' = fst ` set d \<union> {k. \<exists>s \<in> set ssids. map_of s ''name'' = Some k}
     \<and> (\<forall>k. map_of d' k =
           (if \<exists>s \<in> set ssids. map_of s ''name'' = Some k
            then Some (last (filter (\<lambda>s. map_of s ''name'' = Some k) ssids))
            else map_of d k))"
  using assms
proof (induction ssids arbitrary: d)
  case Nil
  show ?case by simp
next
  case (Cons ssid ssids)
  from Cons.prems obtain name where name: "map_of ssid ''name'' = Some name" "hashable name"
    by auto
  have all: "\<forall>s \<in> set ssids. \<exists>k. map_of s ''name'' = Some k \<and> hashable k"
    using Cons.prems by simp
  from Cons.IH [OF all, of "AList.update name ssid d"] obtain d' where
    d': "make_ssid_dict_loop ssids (AList.update name ssid d) = Inr d'"
      "distinct (map fst (AList.update name ssid d)) \<longrightarrow> distinct (map fst d')"
      "fst ` set d' = fst ` set (AList.update name ssid d) \<union>
          {k. \<exists>s \<in> set ssids. map_of s ''name'' = Some k}"
      "\<forall>k. map_of d' k =
           (if \<exists>s \<in> set ssids. map_of s ''name'' = Some k
            then Some (last (filter (\<lambda>s. map_of s ''name'' = Some k) ssids))
            else map_of (AList.update name ssid d) k)"
    by blast
  have run: "make_ssid_dict_loop (ssid # ssids) d = Inr d'"
    using name d'(1) by (simp add: getitem_def)
  have dist: "distinct (map fst d) \<longrightarrow> distinct (map fst d')"
    using d'(2) by (simp add: distinct_update)
  have keys: "fst ` set d' = fst ` set d \<union>
      {k. \<exists>s \<in> set (ssid # ssids). map_of s ''name'' = Some k}"
    using d'(3) name(1) by (auto simp: dom_update)
  have look: "map_of d' k =
           (if \<exists>s \<in> set (ssid # ssids). map_of s ''name'' = Some k
            then Some (last (filter (\<lambda>s. map_of s ''name'' = Some k) (ssid # ssids)))
            else map_of d k)" for k
    using d'(4) [rule_format, of k] name(1)
    by (auto simp: update_conv' filter_empty_conv)
  show ?case using run dist keys look by blast
qed

text \<open>
  C4. Let \<open>get_all_ssids\<close> succeed on the wireless networks, and take the SSID lists it
  fetched, one per network and in the networks' order. Then \<open>make_ssid_dict\<close> succeeds
  on its result, and in the catalog: no key starts with \<open>Unconfigured\<close>; every fetched
  SSID whose name does not start with \<open>Unconfigured\<close> has its name as a key, exactly
  once, and the record under that key is the last fetched record bearing that name
  (so the one of the last network that defines it); and there is no other key.
\<close>

theorem catalog_excludes_placeholders_last_wins:
  assumes "get_all_ssids renders dashboard wireless_networks w = (Inr all_ssids, w')"
  shows "\<exists>evs catalog.
      out w' = out w @ evs
    \<and> map (Some \<circ> fst) (ssid_listings evs) = map (\<lambda>net. map_of net ''id'') wireless_networks
    \<and> make_ssid_dict all_ssids = Inr catalog
    \<and> distinct (map fst catalog)
    \<and> (\<forall>n. prefix ''Unconfigured'' n \<longrightarrow> PStr n \<notin> fst ` set catalog)
    \<and> (\<forall>s \<in> set (fetched_ssids evs). \<exists>n. map_of s ''name'' = Some (PStr n) \<and>
          (\<not> prefix ''Unconfigured'' n \<longrightarrow>
             map_of catalog (PStr n) =
               Some (last (filter (\<lambda>s'. map_of s' ''name'' = Some (PStr n)) (fetched_ssids evs)))))
    \<and> (\<forall>k \<in> fst ` set catalog. \<exists>s \<in> set (fetched_ssids evs). map_of s ''name'' = Some k)"
proof -
  let ?P = "\<lambda>s. \<exists>n. map_of s ''name'' = Some (PStr n) \<and> \<not> prefix ''Unconfigured'' n"
  from get_all_ssids_loop_run [OF assms [unfolded get_all_ssids_def]] obtain evs where
    evs: "out w' = out w @ evs"
      "map (Some \<circ> fst) (ssid_listings evs) = map (\<lambda>net. map_of net ''id'') wireless_networks"
      "all_ssids = filter ?P (fetched_ssids evs)"
      "\<forall>s \<in> set (fetched_ssids evs). \<exists>n. map_of s ''name'' = Some (PStr n)"
    by auto
  have names: "\<forall>s \<in> set all_ssids. \<exists>k. map_of s ''name'' = Some k \<and> hashable k"
    unfolding evs(3) by auto
  from make_ssid_dict_loop_run [OF names, of "[]"] obtain catalog where
    cat: "make_ssid_dict all_ssids = Inr catalog"
      "distinct (map fst catalog)"
      "fst ` set catalog = {k. \<exists>s \<in> set all_ssids. map_of s ''name'' = Some k}"
      "\<forall>k. map_of catalog k =
           (if \<exists>s \<in> set all_ssids. map_of s ''name'' = Some k
            then Some (last (filter (\<lambda>s. map_of s ''name'' = Some k) all_ssids))
            else None)"
    by (auto simp: make_ssid_dict_def)
  have excl: "PStr n \<notin> fst ` set catalog" if "prefix ''Unconfigured'' n" for n
    using that unfolding cat(3) evs(3) by auto
  have same: "filter (\<lambda>s'. map_of s' ''name'' = Some (PStr n)) all_ssids =
              filter (\<lambda>s'. map_of s' ''name'' = Some (PStr n)) (fetched_ssids evs)"
    if "\<not> prefix ''Unconfigured'' n" for n
    unfolding evs(3) filter_filter using that by (intro filter_cong) auto
  have last_wins: "\<exists>n. map_of s ''name'' = Some (PStr n) \<and>
          (\<not> prefix ''Unconfigured'' n \<longrightarrow>
             map_of catalog (PStr n) =
               Some (last (filter (\<lambda>s'. map_of s' ''name'' = Some (PStr n)) (fetched_ssids evs))))"
    if s: "s \<in> set (fetched_ssids evs)" for s
  proof -
    from evs(4) s obtain n where n: "map_of s ''name'' = Some (PStr n)" by blast
    have "map_of catalog (PStr n) =
               Some (last (filter (\<lambda>s'. map_of s' ''name'' = Some (PStr n)) (fetched_ssids evs)))"
      if np: "\<not> prefix ''Unconfigured'' n"
    proof -
      have "s \<in> set all_ssids" unfolding evs(3) using s n np by simp
      then have "\<exists>s \<in> set all_ssids. map_of s ''name'' = Some (PStr n)" using n by blast
      with cat(4) [rule_format, of "PStr n"] same [OF np] show ?thesis by simp
    qed
    with n show ?thesis by blast
  qed
  have only: "\<exists>s \<in> set (fetched_ssids evs). map_of s ''name'' = Some k"
    if "k \<in> fst ` set catalog" for k
    using that unfolding cat(3) evs(3) by auto
  show ?thesis
    using evs(1,2) cat(1,2) excl last_wins only by blast
qed

theorem catalog_excludes_placeholders_last_wins_witness:
  "\<exists>catalog.
      make_ssid_dict [demo_guest, demo_staff, demo_guest_b] = Inr catalog
    \<and> distinct (map fst catalog)
    \<and> PStr ''Unconfigured SSID 3'' \<notin> fst ` set catalog
    \<and> map_of catalog (PStr ''Guest'') = Some demo_guest_b
    \<and> map_of catalog (PStr ''Staff'') = Some demo_staff"
proof -
  let ?nets = "[[(''id'', PStr ''N_1''), (''name'', PStr ''Branch-A''),
                 (''productTypes'', PList [PStr ''wireless''])],
                [(''id'', PStr ''N_2''), (''name'', PStr ''Branch-B''),
                 (''productTypes'', PList [PStr ''appliance'', PStr ''wireless''])]]"
  let ?evs = "[Print [Lit ''Retrieving SSIDs for the '', Val (PStr ''Branch-A''), Lit '' network''],
               Call (GetNetworkWirelessSsids (PStr ''N_1''))
                 (Inr [demo_guest, demo_staff, demo_spare]),
               Print [Lit ''Retrieving SSIDs for the '', Val (PStr ''Branch-B''), Lit '' network''],
               Call (GetNetworkWirelessSsids (PStr ''N_2'')) (Inr [demo_guest_b])]"
  have h: "get_all_ssids demo_renders demo_dashboard ?nets (demo_world []) =
             (Inr [demo_guest, demo_staff, demo_guest_b], \<lparr>cloud = 0, stdin = [], out = ?evs\<rparr>)"
    by (simp add: run_defs demo_defs)
  from catalog_excludes_placeholders_last_wins [where dashboard = demo_dashboard, OF h]
  obtain evs catalog where
    c: "out \<lparr>cloud = (0::nat), stdin = [], out = ?evs\<rparr> = out (demo_world []) @ evs"
      "make_ssid_dict [demo_guest, demo_staff, demo_guest_b] = Inr catalog"
      "distinct (map fst catalog)"
      "\<forall>n. prefix ''Unconfigured'' n \<longrightarrow> PStr n \<notin> fst ` set catalog"
      "\<forall>s \<in> set (fetched_ssids evs). \<exists>n. map_of s ''name'' = Some (PStr n) \<and>
          (\<not> prefix ''Unconfigured'' n \<longrightarrow>
             map_of catalog (PStr n) =
               Some (last (filter (\<lambda>s'. map_of s' ''name'' = Some (PStr n)) (fetched_ssids evs))))"
    by blast
  have evs: "evs = ?evs" using c(1) by (simp add: demo_world_def)
  have f: "fetched_ssids evs = [demo_guest, demo_staff, demo_spare, demo_guest_b]"
    by (simp add: evs fetched_ssids_def)
  have spare: "PStr ''Unconfigured SSID 3'' \<notin> fst ` set catalog"
    using c(4) [rule_format, of "''Unconfigured SSID 3''"] by simp
  have guest: "map_of catalog (PStr ''Guest'') = Some demo_guest_b"
    using c(5) [rule_format, of demo_guest_b]
    by (simp add: f) (simp add: demo_guest_def demo_staff_def demo_spare_def demo_guest_b_def)
  have staff: "map_of catalog (PStr ''Staff'') = Some demo_staff"
    using c(5) [rule_format, of demo_staff]
    by (simp add: f) (simp add: demo_guest_def demo_staff_def demo_spare_def demo_guest_b_def)
  show ?thesis using c(2,3) spare guest staff by blast
qed

subsection \<open>The PSK listing\<close>

lemma psk_candidates_append:
  "psk_candidates (xs @ ys) = psk_candidates xs @ psk_candidates ys"
  by (simp add: psk_candidates_def ssid_listings_append)












subsection \<open>Resolution of the configured names\<close>




lemma get_network_id_run:
  assumes "\<forall>d. fst (dashboard (GetOrganizationNetworks ORG_ID) d) = Inr networks"
  shows "get_network_id dashboard ORG_ID n w =
     (get_network_id_loop networks n,
      w\<lparr>cloud := snd (dashboard (GetOrganizationNetworks ORG_ID) (cloud w)),
        out := out w @ [Call (GetOrganizationNetworks ORG_ID) (Inr networks)]\<rparr>)"
proof -
  have "dashboard (GetOrganizationNetworks ORG_ID) (cloud w) =
          (Inr networks, snd (dashboard (GetOrganizationNetworks ORG_ID) (cloud w)))"
    using assms by (simp add: prod_eq_iff)
  then show ?thesis
    by (simp add: get_network_id_def bnd_call lift_def)
qed








end
